theory Spec2Isabelle
  imports Complex_Main "HOL-Library.AList"
begin

section \<open>Data model (shared/schema.ts)\<close>

text \<open>
  The schema declares ten tables. The insert types are inferred from the tables by
  \<open>createInsertSchema\<close> of the drizzle-zod library: a column that is \<open>notNull\<close> without
  default is a required property; a \<open>notNull\<close> column with a default (every \<open>serial\<close> id,
  \<open>status\<close>, \<open>convertedToClient\<close>, \<open>activeStatus\<close>) is an optional property; a nullable
  column is an optional property that may also hold \<open>null\<close>. Only the insert schema of
  users picks its columns, and leaves \<open>id\<close> out; every other insert type, and so every
  update payload (\<open>Partial\<close> of the insert type), may carry an \<open>id\<close>.

  An optional property is an \<open>option\<close> (\<open>None\<close>: the property is absent); a nullable value is
  a \<open>nullable\<close>. The in-memory store never fills in a default, so a stored object has
  exactly the properties of the inserted one plus \<open>id\<close>: the stored record types keep the
  optional properties optional. Ids and foreign ids are JavaScript numbers holding
  integers, modelled as \<open>int\<close> (unbounded: the counter's loss of precision beyond \<open>2^53\<close> is
  not modelled); the enum columns are the strings they are at run time; a \<open>date\<close> column
  is a string, a \<open>timestamp\<close> column is a Date, modelled by its time value in
  milliseconds.

  A \<open>doublePrecision\<close> column is a JavaScript number: a finite double, given by the real
  number it denotes, one of the two infinities (which a JSON body can spell, as \<open>1e999\<close>),
  or \<open>NaN\<close> (which the insert schemas reject and addition can produce). The sign of a
  zero is not kept; a response prints both zeros alike.
\<close>

datatype 'a nullable = Null | Val 'a

datatype number = Num real | Infinity | NegInfinity | NaN

record User =
  id :: int
  username :: string
  password :: string
  employeeId :: "int nullable option"

record InsertUser =
  username :: string
  password :: string
  employeeId :: "int nullable option"

record Client =
  id :: int
  name :: string
  phone :: string
  address :: "string nullable option"
  clientType :: string

record InsertClient =
  id :: "int option"
  name :: string
  phone :: string
  address :: "string nullable option"
  clientType :: string

record PartialInsertClient =
  id :: "int option"
  name :: "string option"
  phone :: "string option"
  address :: "string nullable option"
  clientType :: "string option"

record Service =
  id :: int
  name :: string
  description :: "string nullable option"
  frequency :: string
  basePrice :: number

record InsertService =
  id :: "int option"
  name :: string
  description :: "string nullable option"
  frequency :: string
  basePrice :: number

record PartialInsertService =
  id :: "int option"
  name :: "string option"
  description :: "string nullable option"
  frequency :: "string option"
  basePrice :: "number option"

record Project =
  id :: int
  clientId :: int
  name :: string
  dateRequested :: string
  dateOfExecution :: "string nullable option"
  description :: "string nullable option"
  invoiceFile :: "string nullable option"
  cost :: number
  price :: number
  duration :: "string nullable option"
  status :: "string option"

record InsertProject =
  id :: "int option"
  clientId :: int
  name :: string
  dateRequested :: string
  dateOfExecution :: "string nullable option"
  description :: "string nullable option"
  invoiceFile :: "string nullable option"
  cost :: number
  price :: number
  duration :: "string nullable option"
  status :: "string option"

record PartialInsertProject =
  id :: "int option"
  clientId :: "int option"
  name :: "string option"
  dateRequested :: "string option"
  dateOfExecution :: "string nullable option"
  description :: "string nullable option"
  invoiceFile :: "string nullable option"
  cost :: "number option"
  price :: "number option"
  duration :: "string nullable option"
  status :: "string option"

record ProjectDocument =
  id :: int
  projectId :: int
  filename :: string
  filepath :: string
  uploadDate :: int

record InsertProjectDocument =
  id :: "int option"
  projectId :: int
  filename :: string
  filepath :: string
  uploadDate :: int

record ClientService =
  clientId :: int
  serviceId :: int

record NewClientContact =
  id :: int
  contactName :: string
  phoneEmail :: string
  contactedDate :: string
  contactMethod :: string
  responseType :: string
  notes' :: "string nullable option"
  convertedToClient :: "bool option"
  convertedClientId :: "int nullable option"

record InsertNewClientContact =
  id :: "int option"
  contactName :: string
  phoneEmail :: string
  contactedDate :: string
  contactMethod :: string
  responseType :: string
  notes' :: "string nullable option"
  convertedToClient :: "bool option"
  convertedClientId :: "int nullable option"

record PartialInsertNewClientContact =
  id :: "int option"
  contactName :: "string option"
  phoneEmail :: "string option"
  contactedDate :: "string option"
  contactMethod :: "string option"
  responseType :: "string option"
  notes' :: "string nullable option"
  convertedToClient :: "bool option"
  convertedClientId :: "int nullable option"

record FollowUp =
  id :: int
  taskDescription :: string
  clientId :: "int nullable option"
  relatedProjectId :: "int nullable option"
  assignedEmployeeId :: int
  dueDate :: string
  status :: "string option"
  notes' :: "string nullable option"
  createdById :: int

record InsertFollowUp =
  id :: "int option"
  taskDescription :: string
  clientId :: "int nullable option"
  relatedProjectId :: "int nullable option"
  assignedEmployeeId :: int
  dueDate :: string
  status :: "string option"
  notes' :: "string nullable option"
  createdById :: int

record PartialInsertFollowUp =
  id :: "int option"
  taskDescription :: "string option"
  clientId :: "int nullable option"
  relatedProjectId :: "int nullable option"
  assignedEmployeeId :: "int option"
  dueDate :: "string option"
  status :: "string option"
  notes' :: "string nullable option"
  createdById :: "int option"

record Employee =
  id :: int
  name :: string
  email :: string
  role :: string
  activeStatus :: "bool option"

record InsertEmployee =
  id :: "int option"
  name :: string
  email :: string
  role :: string
  activeStatus :: "bool option"

record PartialInsertEmployee =
  id :: "int option"
  name :: "string option"
  email :: "string option"
  role :: "string option"
  activeStatus :: "bool option"

record EmployeeClient =
  employeeId :: int
  clientId :: int

section \<open>The JavaScript Map\<close>

text \<open>
  A \<open>Map\<close> iterates in insertion order; \<open>set\<close> on a key that is present replaces the
  value in place, on a new key it appends; \<open>delete\<close> answers whether the key was
  present. It is an association list with these operations.
\<close>

type_synonym ('k, 'v) Map = "('k \<times> 'v) list"

definition Map_get :: "('k, 'v) Map \<Rightarrow> 'k \<Rightarrow> 'v option" where
  "Map_get m k = map_of m k"

definition Map_set :: "'k \<Rightarrow> 'v \<Rightarrow> ('k, 'v) Map \<Rightarrow> ('k, 'v) Map" where
  "Map_set k v m = AList.update k v m"

definition Map_delete :: "'k \<Rightarrow> ('k, 'v) Map \<Rightarrow> bool \<times> ('k, 'v) Map" where
  "Map_delete k m = (k \<in> set (map fst m), AList.delete k m)"

definition Map_values :: "('k, 'v) Map \<Rightarrow> 'v list" where
  "Map_values m = map snd m"

definition Map_keys :: "('k, 'v) Map \<Rightarrow> 'k list" where
  "Map_keys m = map fst m"

text \<open>
  The object spread \<open>{...a, ...b}\<close>, property by property: a property that \<open>b\<close> has
  wins, otherwise \<open>a\<close>'s stays. \<open>spread\<close> is for a property that \<open>a\<close> always has,
  \<open>spreadOpt\<close> for one that \<open>a\<close> may lack.
\<close>

definition spread :: "'a \<Rightarrow> 'a option \<Rightarrow> 'a" where
  "spread a b = (case b of None \<Rightarrow> a | Some v \<Rightarrow> v)"

definition spreadOpt :: "'a option \<Rightarrow> 'a option \<Rightarrow> 'a option" where
  "spreadOpt a b = (case b of None \<Rightarrow> a | Some v \<Rightarrow> Some v)"

section \<open>The in-memory store (server/storage.ts)\<close>

text \<open>
  \<open>MemStorage\<close> holds one map per entity, two association maps keyed by a string, and
  the next id of each entity. The session store plays no part in the data operations
  and is left out.
\<close>

record MemStorage =
  userStore :: "(int, User) Map"
  clientStore :: "(int, Client) Map"
  serviceStore :: "(int, Service) Map"
  projectStore :: "(int, Project) Map"
  projectDocumentStore :: "(int, ProjectDocument) Map"
  clientServiceStore :: "(string, ClientService) Map"
  newClientContactStore :: "(int, NewClientContact) Map"
  followUpStore :: "(int, FollowUp) Map"
  employeeStore :: "(int, Employee) Map"
  employeeClientStore :: "(string, EmployeeClient) Map"
  userId :: int
  clientId :: int
  serviceId :: int
  projectId :: int
  projectDocumentId :: int
  newClientContactId :: int
  followUpId :: int
  employeeId :: int

subsection \<open>User methods\<close>

definition getUser :: "int \<Rightarrow> MemStorage \<Rightarrow> User option" where
  "getUser id' s = Map_get (userStore s) id'"

definition getUserByUsername :: "string \<Rightarrow> MemStorage \<Rightarrow> User option" where
  "getUserByUsername username' s =
     find (\<lambda>user. User.username user = username') (Map_values (userStore s))"

definition User_withId :: "InsertUser \<Rightarrow> int \<Rightarrow> User" where
  "User_withId user id' =
     \<lparr>User.id = id', username = InsertUser.username user,
      password = InsertUser.password user, employeeId = InsertUser.employeeId user\<rparr>"

definition createUser :: "InsertUser \<Rightarrow> MemStorage \<Rightarrow> User \<times> MemStorage" where
  "createUser user s =
     (let id' = MemStorage.userId s;
          newUser = User_withId user id'
      in (newUser, s\<lparr>MemStorage.userId := id' + 1,
                      userStore := Map_set id' newUser (userStore s)\<rparr>))"

subsection \<open>Client methods\<close>

definition getClients :: "MemStorage \<Rightarrow> Client list" where
  "getClients s = Map_values (clientStore s)"

definition getClient :: "int \<Rightarrow> MemStorage \<Rightarrow> Client option" where
  "getClient id' s = Map_get (clientStore s) id'"

definition Client_withId :: "InsertClient \<Rightarrow> int \<Rightarrow> Client" where
  "Client_withId client id' =
     \<lparr>Client.id = id', name = InsertClient.name client, phone = InsertClient.phone client,
      address = InsertClient.address client, clientType = InsertClient.clientType client\<rparr>"

definition createClient :: "InsertClient \<Rightarrow> MemStorage \<Rightarrow> Client \<times> MemStorage" where
  "createClient client s =
     (let id' = MemStorage.clientId s;
          newClient = Client_withId client id'
      in (newClient, s\<lparr>MemStorage.clientId := id' + 1,
                        clientStore := Map_set id' newClient (clientStore s)\<rparr>))"

definition Client_merge :: "Client \<Rightarrow> PartialInsertClient \<Rightarrow> Client" where
  "Client_merge client clientData =
     \<lparr>Client.id = spread (Client.id client) (PartialInsertClient.id clientData),
      name = spread (Client.name client) (PartialInsertClient.name clientData),
      phone = spread (Client.phone client) (PartialInsertClient.phone clientData),
      address = spreadOpt (Client.address client) (PartialInsertClient.address clientData),
      clientType = spread (Client.clientType client) (PartialInsertClient.clientType clientData)\<rparr>"

definition updateClient ::
  "int \<Rightarrow> PartialInsertClient \<Rightarrow> MemStorage \<Rightarrow> Client option \<times> MemStorage" where
  "updateClient id' clientData s =
     (case Map_get (clientStore s) id' of
        None \<Rightarrow> (None, s)
      | Some client \<Rightarrow>
          (let updatedClient = Client_merge client clientData
           in (Some updatedClient,
               s\<lparr>clientStore := Map_set id' updatedClient (clientStore s)\<rparr>)))"

definition deleteClient :: "int \<Rightarrow> MemStorage \<Rightarrow> bool \<times> MemStorage" where
  "deleteClient id' s =
     (let (found, m) = Map_delete id' (clientStore s) in (found, s\<lparr>clientStore := m\<rparr>))"

definition getClientsByEmployee :: "int \<Rightarrow> MemStorage \<Rightarrow> Client list" where
  "getClientsByEmployee employeeId' s =
     (let assignedClientIds =
            map EmployeeClient.clientId
              (filter (\<lambda>ec. EmployeeClient.employeeId ec = employeeId')
                 (Map_values (employeeClientStore s)))
      in filter (\<lambda>client. Client.id client \<in> set assignedClientIds)
           (Map_values (clientStore s)))"

subsection \<open>Service methods\<close>

definition getServices :: "MemStorage \<Rightarrow> Service list" where
  "getServices s = Map_values (serviceStore s)"

definition getService :: "int \<Rightarrow> MemStorage \<Rightarrow> Service option" where
  "getService id' s = Map_get (serviceStore s) id'"

definition Service_withId :: "InsertService \<Rightarrow> int \<Rightarrow> Service" where
  "Service_withId service id' =
     \<lparr>Service.id = id', name = InsertService.name service,
      description = InsertService.description service,
      frequency = InsertService.frequency service,
      basePrice = InsertService.basePrice service\<rparr>"

definition createService :: "InsertService \<Rightarrow> MemStorage \<Rightarrow> Service \<times> MemStorage" where
  "createService service s =
     (let id' = MemStorage.serviceId s;
          newService = Service_withId service id'
      in (newService, s\<lparr>MemStorage.serviceId := id' + 1,
                         serviceStore := Map_set id' newService (serviceStore s)\<rparr>))"

definition Service_merge :: "Service \<Rightarrow> PartialInsertService \<Rightarrow> Service" where
  "Service_merge service serviceData =
     \<lparr>Service.id = spread (Service.id service) (PartialInsertService.id serviceData),
      name = spread (Service.name service) (PartialInsertService.name serviceData),
      description =
        spreadOpt (Service.description service) (PartialInsertService.description serviceData),
      frequency = spread (Service.frequency service) (PartialInsertService.frequency serviceData),
      basePrice = spread (Service.basePrice service) (PartialInsertService.basePrice serviceData)\<rparr>"

definition updateService ::
  "int \<Rightarrow> PartialInsertService \<Rightarrow> MemStorage \<Rightarrow> Service option \<times> MemStorage" where
  "updateService id' serviceData s =
     (case Map_get (serviceStore s) id' of
        None \<Rightarrow> (None, s)
      | Some service \<Rightarrow>
          (let updatedService = Service_merge service serviceData
           in (Some updatedService,
               s\<lparr>serviceStore := Map_set id' updatedService (serviceStore s)\<rparr>)))"

definition deleteService :: "int \<Rightarrow> MemStorage \<Rightarrow> bool \<times> MemStorage" where
  "deleteService id' s =
     (let (found, m) = Map_delete id' (serviceStore s) in (found, s\<lparr>serviceStore := m\<rparr>))"

definition getServicesByClient :: "int \<Rightarrow> MemStorage \<Rightarrow> Service list" where
  "getServicesByClient clientId' s =
     (let serviceIds =
            map ClientService.serviceId
              (filter (\<lambda>cs. ClientService.clientId cs = clientId')
                 (Map_values (clientServiceStore s)))
      in filter (\<lambda>service. Service.id service \<in> set serviceIds)
           (Map_values (serviceStore s)))"

subsection \<open>Project methods\<close>

definition getProjects :: "MemStorage \<Rightarrow> Project list" where
  "getProjects s = Map_values (projectStore s)"

definition getProject :: "int \<Rightarrow> MemStorage \<Rightarrow> Project option" where
  "getProject id' s = Map_get (projectStore s) id'"

definition Project_withId :: "InsertProject \<Rightarrow> int \<Rightarrow> Project" where
  "Project_withId project id' =
     \<lparr>Project.id = id', clientId = InsertProject.clientId project,
      name = InsertProject.name project,
      dateRequested = InsertProject.dateRequested project,
      dateOfExecution = InsertProject.dateOfExecution project,
      description = InsertProject.description project,
      invoiceFile = InsertProject.invoiceFile project,
      cost = InsertProject.cost project, price = InsertProject.price project,
      duration = InsertProject.duration project, status = InsertProject.status project\<rparr>"

definition createProject :: "InsertProject \<Rightarrow> MemStorage \<Rightarrow> Project \<times> MemStorage" where
  "createProject project s =
     (let id' = MemStorage.projectId s;
          newProject = Project_withId project id'
      in (newProject, s\<lparr>MemStorage.projectId := id' + 1,
                         projectStore := Map_set id' newProject (projectStore s)\<rparr>))"

definition Project_merge :: "Project \<Rightarrow> PartialInsertProject \<Rightarrow> Project" where
  "Project_merge project projectData =
     \<lparr>Project.id = spread (Project.id project) (PartialInsertProject.id projectData),
      clientId = spread (Project.clientId project) (PartialInsertProject.clientId projectData),
      name = spread (Project.name project) (PartialInsertProject.name projectData),
      dateRequested =
        spread (Project.dateRequested project) (PartialInsertProject.dateRequested projectData),
      dateOfExecution =
        spreadOpt (Project.dateOfExecution project)
          (PartialInsertProject.dateOfExecution projectData),
      description =
        spreadOpt (Project.description project) (PartialInsertProject.description projectData),
      invoiceFile =
        spreadOpt (Project.invoiceFile project) (PartialInsertProject.invoiceFile projectData),
      cost = spread (Project.cost project) (PartialInsertProject.cost projectData),
      price = spread (Project.price project) (PartialInsertProject.price projectData),
      duration = spreadOpt (Project.duration project) (PartialInsertProject.duration projectData),
      status = spreadOpt (Project.status project) (PartialInsertProject.status projectData)\<rparr>"

definition updateProject ::
  "int \<Rightarrow> PartialInsertProject \<Rightarrow> MemStorage \<Rightarrow> Project option \<times> MemStorage" where
  "updateProject id' projectData s =
     (case Map_get (projectStore s) id' of
        None \<Rightarrow> (None, s)
      | Some project \<Rightarrow>
          (let updatedProject = Project_merge project projectData
           in (Some updatedProject,
               s\<lparr>projectStore := Map_set id' updatedProject (projectStore s)\<rparr>)))"

definition deleteProject :: "int \<Rightarrow> MemStorage \<Rightarrow> bool \<times> MemStorage" where
  "deleteProject id' s =
     (let (found, m) = Map_delete id' (projectStore s) in (found, s\<lparr>projectStore := m\<rparr>))"

definition getProjectsByClient :: "int \<Rightarrow> MemStorage \<Rightarrow> Project list" where
  "getProjectsByClient clientId' s =
     filter (\<lambda>project. Project.clientId project = clientId') (Map_values (projectStore s))"

definition getProjectsByStatus :: "string \<Rightarrow> MemStorage \<Rightarrow> Project list" where
  "getProjectsByStatus status' s =
     filter (\<lambda>project. Project.status project = Some status') (Map_values (projectStore s))"

subsection \<open>ProjectDocument methods\<close>

definition getProjectDocuments :: "int \<Rightarrow> MemStorage \<Rightarrow> ProjectDocument list" where
  "getProjectDocuments projectId' s =
     filter (\<lambda>doc. ProjectDocument.projectId doc = projectId')
       (Map_values (projectDocumentStore s))"

definition ProjectDocument_withId :: "InsertProjectDocument \<Rightarrow> int \<Rightarrow> ProjectDocument" where
  "ProjectDocument_withId document id' =
     \<lparr>ProjectDocument.id = id', projectId = InsertProjectDocument.projectId document,
      filename = InsertProjectDocument.filename document,
      filepath = InsertProjectDocument.filepath document,
      uploadDate = InsertProjectDocument.uploadDate document\<rparr>"

definition createProjectDocument ::
  "InsertProjectDocument \<Rightarrow> MemStorage \<Rightarrow> ProjectDocument \<times> MemStorage" where
  "createProjectDocument document s =
     (let id' = MemStorage.projectDocumentId s;
          newDocument = ProjectDocument_withId document id'
      in (newDocument,
          s\<lparr>MemStorage.projectDocumentId := id' + 1,
            projectDocumentStore := Map_set id' newDocument (projectDocumentStore s)\<rparr>))"

definition deleteProjectDocument :: "int \<Rightarrow> MemStorage \<Rightarrow> bool \<times> MemStorage" where
  "deleteProjectDocument id' s =
     (let (found, m) = Map_delete id' (projectDocumentStore s)
      in (found, s\<lparr>projectDocumentStore := m\<rparr>))"

subsection \<open>ClientService methods\<close>

text \<open>
  The association maps are keyed by the template literal \<open>`${a}-${b}`\<close>. \<open>toString\<close> is
  the decimal string of an integer, which is what the literal prints for an integer
  below \<open>10^21\<close> in absolute value.
\<close>

function natToString :: "nat \<Rightarrow> string" where
  "natToString n =
     (if n < 10 then [''0123456789'' ! n]
      else natToString (n div 10) @ [''0123456789'' ! (n mod 10)])"
  by pat_completeness auto
termination
  by (relation "measure (\<lambda>n. n)") auto

definition toString :: "int \<Rightarrow> string" where
  "toString n = (if n < 0 then CHR ''-'' # natToString (nat (- n)) else natToString (nat n))"

definition clientServiceKey :: "int \<Rightarrow> int \<Rightarrow> string" where
  "clientServiceKey clientId' serviceId' = toString clientId' @ ''-'' @ toString serviceId'"

definition getClientServices :: "int \<Rightarrow> MemStorage \<Rightarrow> ClientService list" where
  "getClientServices clientId' s =
     filter (\<lambda>cs. ClientService.clientId cs = clientId') (Map_values (clientServiceStore s))"

definition addServiceToClient :: "ClientService \<Rightarrow> MemStorage \<Rightarrow> ClientService \<times> MemStorage" where
  "addServiceToClient clientService s =
     (let key = clientServiceKey (ClientService.clientId clientService)
                  (ClientService.serviceId clientService)
      in (clientService,
          s\<lparr>clientServiceStore := Map_set key clientService (clientServiceStore s)\<rparr>))"

definition removeServiceFromClient :: "int \<Rightarrow> int \<Rightarrow> MemStorage \<Rightarrow> bool \<times> MemStorage" where
  "removeServiceFromClient clientId' serviceId' s =
     (let key = clientServiceKey clientId' serviceId';
          (found, m) = Map_delete key (clientServiceStore s)
      in (found, s\<lparr>clientServiceStore := m\<rparr>))"

subsection \<open>NewClientContact methods\<close>

definition getNewClientContacts :: "MemStorage \<Rightarrow> NewClientContact list" where
  "getNewClientContacts s = Map_values (newClientContactStore s)"

definition getNewClientContact :: "int \<Rightarrow> MemStorage \<Rightarrow> NewClientContact option" where
  "getNewClientContact id' s = Map_get (newClientContactStore s) id'"

definition NewClientContact_withId :: "InsertNewClientContact \<Rightarrow> int \<Rightarrow> NewClientContact" where
  "NewClientContact_withId contact id' =
     \<lparr>NewClientContact.id = id',
      contactName = InsertNewClientContact.contactName contact,
      phoneEmail = InsertNewClientContact.phoneEmail contact,
      contactedDate = InsertNewClientContact.contactedDate contact,
      contactMethod = InsertNewClientContact.contactMethod contact,
      responseType = InsertNewClientContact.responseType contact,
      notes' = InsertNewClientContact.notes' contact,
      convertedToClient = InsertNewClientContact.convertedToClient contact,
      convertedClientId = InsertNewClientContact.convertedClientId contact\<rparr>"

definition createNewClientContact ::
  "InsertNewClientContact \<Rightarrow> MemStorage \<Rightarrow> NewClientContact \<times> MemStorage" where
  "createNewClientContact contact s =
     (let id' = MemStorage.newClientContactId s;
          newContact = NewClientContact_withId contact id'
      in (newContact,
          s\<lparr>MemStorage.newClientContactId := id' + 1,
            newClientContactStore := Map_set id' newContact (newClientContactStore s)\<rparr>))"

definition NewClientContact_merge ::
  "NewClientContact \<Rightarrow> PartialInsertNewClientContact \<Rightarrow> NewClientContact" where
  "NewClientContact_merge contact contactData =
     \<lparr>NewClientContact.id =
        spread (NewClientContact.id contact) (PartialInsertNewClientContact.id contactData),
      contactName =
        spread (NewClientContact.contactName contact)
          (PartialInsertNewClientContact.contactName contactData),
      phoneEmail =
        spread (NewClientContact.phoneEmail contact)
          (PartialInsertNewClientContact.phoneEmail contactData),
      contactedDate =
        spread (NewClientContact.contactedDate contact)
          (PartialInsertNewClientContact.contactedDate contactData),
      contactMethod =
        spread (NewClientContact.contactMethod contact)
          (PartialInsertNewClientContact.contactMethod contactData),
      responseType =
        spread (NewClientContact.responseType contact)
          (PartialInsertNewClientContact.responseType contactData),
      notes' =
        spreadOpt (NewClientContact.notes' contact)
          (PartialInsertNewClientContact.notes' contactData),
      convertedToClient =
        spreadOpt (NewClientContact.convertedToClient contact)
          (PartialInsertNewClientContact.convertedToClient contactData),
      convertedClientId =
        spreadOpt (NewClientContact.convertedClientId contact)
          (PartialInsertNewClientContact.convertedClientId contactData)\<rparr>"

definition updateNewClientContact ::
  "int \<Rightarrow> PartialInsertNewClientContact \<Rightarrow> MemStorage
     \<Rightarrow> NewClientContact option \<times> MemStorage" where
  "updateNewClientContact id' contactData s =
     (case Map_get (newClientContactStore s) id' of
        None \<Rightarrow> (None, s)
      | Some contact \<Rightarrow>
          (let updatedContact = NewClientContact_merge contact contactData
           in (Some updatedContact,
               s\<lparr>newClientContactStore :=
                   Map_set id' updatedContact (newClientContactStore s)\<rparr>)))"

definition deleteNewClientContact :: "int \<Rightarrow> MemStorage \<Rightarrow> bool \<times> MemStorage" where
  "deleteNewClientContact id' s =
     (let (found, m) = Map_delete id' (newClientContactStore s)
      in (found, s\<lparr>newClientContactStore := m\<rparr>))"

definition convertContactToClient :: "int \<Rightarrow> int \<Rightarrow> MemStorage \<Rightarrow> bool \<times> MemStorage" where
  "convertContactToClient contactId clientId' s =
     (case Map_get (newClientContactStore s) contactId of
        None \<Rightarrow> (False, s)
      | Some contact \<Rightarrow>
          (let updatedContact =
                 contact\<lparr>NewClientContact.convertedToClient := Some True,
                         NewClientContact.convertedClientId := Some (Val clientId')\<rparr>
           in (True,
               s\<lparr>newClientContactStore :=
                   Map_set contactId updatedContact (newClientContactStore s)\<rparr>)))"

subsection \<open>FollowUp methods\<close>

definition getFollowUps :: "MemStorage \<Rightarrow> FollowUp list" where
  "getFollowUps s = Map_values (followUpStore s)"

definition getFollowUp :: "int \<Rightarrow> MemStorage \<Rightarrow> FollowUp option" where
  "getFollowUp id' s = Map_get (followUpStore s) id'"

definition FollowUp_withId :: "InsertFollowUp \<Rightarrow> int \<Rightarrow> FollowUp" where
  "FollowUp_withId followUp id' =
     \<lparr>FollowUp.id = id',
      taskDescription = InsertFollowUp.taskDescription followUp,
      clientId = InsertFollowUp.clientId followUp,
      relatedProjectId = InsertFollowUp.relatedProjectId followUp,
      assignedEmployeeId = InsertFollowUp.assignedEmployeeId followUp,
      dueDate = InsertFollowUp.dueDate followUp,
      status = InsertFollowUp.status followUp,
      notes' = InsertFollowUp.notes' followUp,
      createdById = InsertFollowUp.createdById followUp\<rparr>"

definition createFollowUp :: "InsertFollowUp \<Rightarrow> MemStorage \<Rightarrow> FollowUp \<times> MemStorage" where
  "createFollowUp followUp s =
     (let id' = MemStorage.followUpId s;
          newFollowUp = FollowUp_withId followUp id'
      in (newFollowUp, s\<lparr>MemStorage.followUpId := id' + 1,
                          followUpStore := Map_set id' newFollowUp (followUpStore s)\<rparr>))"

definition FollowUp_merge :: "FollowUp \<Rightarrow> PartialInsertFollowUp \<Rightarrow> FollowUp" where
  "FollowUp_merge followUp followUpData =
     \<lparr>FollowUp.id = spread (FollowUp.id followUp) (PartialInsertFollowUp.id followUpData),
      taskDescription =
        spread (FollowUp.taskDescription followUp)
          (PartialInsertFollowUp.taskDescription followUpData),
      clientId =
        spreadOpt (FollowUp.clientId followUp) (PartialInsertFollowUp.clientId followUpData),
      relatedProjectId =
        spreadOpt (FollowUp.relatedProjectId followUp)
          (PartialInsertFollowUp.relatedProjectId followUpData),
      assignedEmployeeId =
        spread (FollowUp.assignedEmployeeId followUp)
          (PartialInsertFollowUp.assignedEmployeeId followUpData),
      dueDate = spread (FollowUp.dueDate followUp) (PartialInsertFollowUp.dueDate followUpData),
      status = spreadOpt (FollowUp.status followUp) (PartialInsertFollowUp.status followUpData),
      notes' = spreadOpt (FollowUp.notes' followUp) (PartialInsertFollowUp.notes' followUpData),
      createdById =
        spread (FollowUp.createdById followUp)
          (PartialInsertFollowUp.createdById followUpData)\<rparr>"

definition updateFollowUp ::
  "int \<Rightarrow> PartialInsertFollowUp \<Rightarrow> MemStorage \<Rightarrow> FollowUp option \<times> MemStorage" where
  "updateFollowUp id' followUpData s =
     (case Map_get (followUpStore s) id' of
        None \<Rightarrow> (None, s)
      | Some followUp \<Rightarrow>
          (let updatedFollowUp = FollowUp_merge followUp followUpData
           in (Some updatedFollowUp,
               s\<lparr>followUpStore := Map_set id' updatedFollowUp (followUpStore s)\<rparr>)))"

definition deleteFollowUp :: "int \<Rightarrow> MemStorage \<Rightarrow> bool \<times> MemStorage" where
  "deleteFollowUp id' s =
     (let (found, m) = Map_delete id' (followUpStore s) in (found, s\<lparr>followUpStore := m\<rparr>))"

definition getFollowUpsByClient :: "int \<Rightarrow> MemStorage \<Rightarrow> FollowUp list" where
  "getFollowUpsByClient clientId' s =
     filter (\<lambda>followUp. FollowUp.clientId followUp = Some (Val clientId'))
       (Map_values (followUpStore s))"

definition getFollowUpsByEmployee :: "int \<Rightarrow> MemStorage \<Rightarrow> FollowUp list" where
  "getFollowUpsByEmployee employeeId' s =
     filter (\<lambda>followUp. FollowUp.assignedEmployeeId followUp = employeeId')
       (Map_values (followUpStore s))"

definition getFollowUpsByStatus :: "string \<Rightarrow> MemStorage \<Rightarrow> FollowUp list" where
  "getFollowUpsByStatus status' s =
     filter (\<lambda>followUp. FollowUp.status followUp = Some status') (Map_values (followUpStore s))"

subsection \<open>Employee methods\<close>

definition getEmployees :: "MemStorage \<Rightarrow> Employee list" where
  "getEmployees s = Map_values (employeeStore s)"

definition getEmployee :: "int \<Rightarrow> MemStorage \<Rightarrow> Employee option" where
  "getEmployee id' s = Map_get (employeeStore s) id'"

definition Employee_withId :: "InsertEmployee \<Rightarrow> int \<Rightarrow> Employee" where
  "Employee_withId employee id' =
     \<lparr>Employee.id = id', name = InsertEmployee.name employee,
      email = InsertEmployee.email employee, role = InsertEmployee.role employee,
      activeStatus = InsertEmployee.activeStatus employee\<rparr>"

definition createEmployee :: "InsertEmployee \<Rightarrow> MemStorage \<Rightarrow> Employee \<times> MemStorage" where
  "createEmployee employee s =
     (let id' = MemStorage.employeeId s;
          newEmployee = Employee_withId employee id'
      in (newEmployee, s\<lparr>MemStorage.employeeId := id' + 1,
                          employeeStore := Map_set id' newEmployee (employeeStore s)\<rparr>))"

definition Employee_merge :: "Employee \<Rightarrow> PartialInsertEmployee \<Rightarrow> Employee" where
  "Employee_merge employee employeeData =
     \<lparr>Employee.id = spread (Employee.id employee) (PartialInsertEmployee.id employeeData),
      name = spread (Employee.name employee) (PartialInsertEmployee.name employeeData),
      email = spread (Employee.email employee) (PartialInsertEmployee.email employeeData),
      role = spread (Employee.role employee) (PartialInsertEmployee.role employeeData),
      activeStatus =
        spreadOpt (Employee.activeStatus employee)
          (PartialInsertEmployee.activeStatus employeeData)\<rparr>"

definition updateEmployee ::
  "int \<Rightarrow> PartialInsertEmployee \<Rightarrow> MemStorage \<Rightarrow> Employee option \<times> MemStorage" where
  "updateEmployee id' employeeData s =
     (case Map_get (employeeStore s) id' of
        None \<Rightarrow> (None, s)
      | Some employee \<Rightarrow>
          (let updatedEmployee = Employee_merge employee employeeData
           in (Some updatedEmployee,
               s\<lparr>employeeStore := Map_set id' updatedEmployee (employeeStore s)\<rparr>)))"

definition deleteEmployee :: "int \<Rightarrow> MemStorage \<Rightarrow> bool \<times> MemStorage" where
  "deleteEmployee id' s =
     (let (found, m) = Map_delete id' (employeeStore s) in (found, s\<lparr>employeeStore := m\<rparr>))"

definition getEmployeesByRole :: "string \<Rightarrow> MemStorage \<Rightarrow> Employee list" where
  "getEmployeesByRole role' s =
     filter (\<lambda>employee. Employee.role employee = role') (Map_values (employeeStore s))"

subsection \<open>EmployeeClient methods\<close>

definition employeeClientKey :: "int \<Rightarrow> int \<Rightarrow> string" where
  "employeeClientKey employeeId' clientId' = toString employeeId' @ ''-'' @ toString clientId'"

definition assignClientToEmployee ::
  "EmployeeClient \<Rightarrow> MemStorage \<Rightarrow> EmployeeClient \<times> MemStorage" where
  "assignClientToEmployee employeeClient s =
     (let key = employeeClientKey (EmployeeClient.employeeId employeeClient)
                  (EmployeeClient.clientId employeeClient)
      in (employeeClient,
          s\<lparr>employeeClientStore := Map_set key employeeClient (employeeClientStore s)\<rparr>))"

definition unassignClientFromEmployee :: "int \<Rightarrow> int \<Rightarrow> MemStorage \<Rightarrow> bool \<times> MemStorage" where
  "unassignClientFromEmployee employeeId' clientId' s =
     (let key = employeeClientKey employeeId' clientId';
          (found, m) = Map_delete key (employeeClientStore s)
      in (found, s\<lparr>employeeClientStore := m\<rparr>))"

definition getClientsAssignedToEmployee :: "int \<Rightarrow> MemStorage \<Rightarrow> int list" where
  "getClientsAssignedToEmployee employeeId' s =
     map EmployeeClient.clientId
       (filter (\<lambda>ec. EmployeeClient.employeeId ec = employeeId')
          (Map_values (employeeClientStore s)))"

subsection \<open>The constructor\<close>

text \<open>
  The constructor starts from empty maps and counters at 1, then seeds one employee
  and one user through the store's own create methods.
\<close>

definition emptyStorage :: MemStorage where
  "emptyStorage =
     \<lparr>userStore = [], clientStore = [], serviceStore = [], projectStore = [],
      projectDocumentStore = [], clientServiceStore = [], newClientContactStore = [],
      followUpStore = [], employeeStore = [], employeeClientStore = [],
      userId = 1, clientId = 1, serviceId = 1, projectId = 1, projectDocumentId = 1,
      newClientContactId = 1, followUpId = 1, employeeId = 1\<rparr>"

definition seedEmployee :: InsertEmployee where
  "seedEmployee =
     \<lparr>InsertEmployee.id = None, name = ''John Doe'', email = ''john@example.com'',
      role = ''Manager'', activeStatus = Some True\<rparr>"

definition seedUser :: InsertUser where
  "seedUser =
     \<lparr>InsertUser.username = ''admin'', password = ''password'', employeeId = Some (Val 1)\<rparr>"

definition seedInitialData :: "MemStorage \<Rightarrow> MemStorage" where
  "seedInitialData s = snd (createUser seedUser (snd (createEmployee seedEmployee s)))"

definition newMemStorage :: MemStorage where
  "newMemStorage = seedInitialData emptyStorage"

section \<open>The HTTP routes (server/routes.ts)\<close>

text \<open>
  A handler answers with a status and a JSON value, a status and a message, or a bare
  status. \<open>authenticated\<close> is what \<open>req.isAuthenticated()\<close> answers. None of the store's
  methods throws, so the handlers' \<open>catch\<close> branches (status 500) are never taken by the
  store calls modelled here. Removing a document's file from disk can fail, which the
  handler logs and ignores; the file system is not part of the model.
\<close>

datatype 'a Response = Json nat 'a | Message nat string | End nat

text \<open>
  \<open>DELETE /api/documents/:id\<close>; \<open>id'\<close> is \<open>parseInt(req.params.id)\<close>.
\<close>

definition deleteDocumentRoute :: "bool \<Rightarrow> int \<Rightarrow> MemStorage \<Rightarrow> unit Response \<times> MemStorage" where
  "deleteDocumentRoute authenticated id' s =
     (if \<not> authenticated then (Message 401 ''Unauthorized'', s)
      else
        (let documents = getProjectDocuments 0 s;
             document = find (\<lambda>doc. ProjectDocument.id doc = id') documents
         in case document of
              None \<Rightarrow> (Message 404 ''Document not found'', s)
            | Some d \<Rightarrow> (End 204, snd (deleteProjectDocument id' s))))"

text \<open>
  The addition of two numbers. The sum of two finite doubles is the double nearest to
  their exact sum: the exact sum itself when that is a double, and otherwise its
  rounding \<open>rnd\<close> (to the nearest double, ties to even, and to an infinity beyond the
  largest double), which is a parameter. The finite doubles are the numbers
  \<open>m * 2^e\<close> with \<open>|m| < 2^53\<close> and \<open>-1074 \<le> e \<le> 971\<close>.
\<close>

definition isDouble :: "real \<Rightarrow> bool" where
  "isDouble x =
     (\<exists>m \<in> {- (2 ^ 53 - 1) .. 2 ^ 53 - 1 :: int}. \<exists>e \<in> {- 1074 .. 971 :: int}.
        x = of_int m * 2 powi e)"

fun jsAdd :: "(real \<Rightarrow> number) \<Rightarrow> number \<Rightarrow> number \<Rightarrow> number" where
  "jsAdd rnd (Num x) (Num y) = (if isDouble (x + y) then Num (x + y) else rnd (x + y))"
| "jsAdd rnd NaN b = NaN"
| "jsAdd rnd a NaN = NaN"
| "jsAdd rnd Infinity NegInfinity = NaN"
| "jsAdd rnd NegInfinity Infinity = NaN"
| "jsAdd rnd Infinity b = Infinity"
| "jsAdd rnd a Infinity = Infinity"
| "jsAdd rnd NegInfinity b = NegInfinity"
| "jsAdd rnd a NegInfinity = NegInfinity"

text \<open>
  \<open>Array.prototype.filter\<close> with a callback that reads the clock: the callback is given
  the number of readings made so far and returns it updated.
\<close>

fun filterClock :: "(nat \<Rightarrow> 'a \<Rightarrow> bool \<times> nat) \<Rightarrow> nat \<Rightarrow> 'a list \<Rightarrow> 'a list \<times> nat" where
  "filterClock p n [] = ([], n)"
| "filterClock p n (x # xs) =
     (let (keep, n') = p n x;
          (ys, n'') = filterClock p n' xs
      in (if keep then x # ys else ys, n''))"

text \<open>
  \<open>GET /api/analytics/dashboard\<close>. \<open>dateValue\<close> is the time value of \<open>new Date(str)\<close>,
  \<open>None\<close> for an invalid date (whose time value is \<open>NaN\<close>, which is below nothing).
  \<open>clock k\<close> is the time value of the \<open>k\<close>-th \<open>new Date()\<close> that the handler
  evaluates, counted from 0: the callback of the overdue filter evaluates one for each
  follow-up whose status is \<open>Pending\<close>, so the follow-ups of one answer need not be
  compared with the same time. The two lists of the answer (\<open>recentProjects\<close>,
  \<open>pendingFollowUpsList\<close>) are sorted copies and are left out; the counters do not depend
  on them.
\<close>

record Dashboard =
  totalClients :: nat
  activeProjects :: nat
  pendingFollowUps :: nat
  overdueFollowUps :: nat
  totalRevenue :: number

definition isOverdue ::
  "(string \<Rightarrow> int option) \<Rightarrow> (nat \<Rightarrow> int) \<Rightarrow> nat \<Rightarrow> FollowUp \<Rightarrow> bool \<times> nat" where
  "isOverdue dateValue clock n f =
     (if FollowUp.status f \<noteq> Some ''Pending'' then (False, n)
      else
        (let dueDate' = dateValue (FollowUp.dueDate f);
             now = clock n
         in (case dueDate' of None \<Rightarrow> False | Some d \<Rightarrow> d < now, Suc n)))"

definition dashboard ::
  "(real \<Rightarrow> number) \<Rightarrow> (string \<Rightarrow> int option) \<Rightarrow> (nat \<Rightarrow> int) \<Rightarrow> MemStorage \<Rightarrow> Dashboard" where
  "dashboard rnd dateValue clock s =
     (let clients = getClients s;
          projects = getProjects s;
          followUps = getFollowUps s
      in \<lparr>totalClients = length clients,
          activeProjects = length (filter (\<lambda>p. Project.status p = Some ''In Progress'') projects),
          pendingFollowUps = length (filter (\<lambda>f. FollowUp.status f = Some ''Pending'') followUps),
          overdueFollowUps = length (fst (filterClock (isOverdue dateValue clock) 0 followUps)),
          totalRevenue =
            foldl (\<lambda>sum project. jsAdd rnd sum (Project.price project)) (Num 0) projects\<rparr>)"

definition dashboardRoute ::
  "(real \<Rightarrow> number) \<Rightarrow> (string \<Rightarrow> int option) \<Rightarrow> (nat \<Rightarrow> int) \<Rightarrow> bool \<Rightarrow> MemStorage
     \<Rightarrow> Dashboard Response" where
  "dashboardRoute rnd dateValue clock authenticated s =
     (if \<not> authenticated then Message 401 ''Unauthorized''
      else Json 200 (dashboard rnd dateValue clock s))"

section \<open>Runs of the store\<close>

text \<open>
  The methods of the store that change it, as operations; a run applies a list of them
  to a store. The reachable stores are those a run produces from a new one.
\<close>

datatype Op =
    CreateUser InsertUser
  | CreateClient InsertClient
  | UpdateClient int PartialInsertClient
  | DeleteClient int
  | CreateService InsertService
  | UpdateService int PartialInsertService
  | DeleteService int
  | CreateProject InsertProject
  | UpdateProject int PartialInsertProject
  | DeleteProject int
  | CreateProjectDocument InsertProjectDocument
  | DeleteProjectDocument int
  | AddServiceToClient ClientService
  | RemoveServiceFromClient int int
  | CreateNewClientContact InsertNewClientContact
  | UpdateNewClientContact int PartialInsertNewClientContact
  | DeleteNewClientContact int
  | ConvertContactToClient int int
  | CreateFollowUp InsertFollowUp
  | UpdateFollowUp int PartialInsertFollowUp
  | DeleteFollowUp int
  | CreateEmployee InsertEmployee
  | UpdateEmployee int PartialInsertEmployee
  | DeleteEmployee int
  | AssignClientToEmployee EmployeeClient
  | UnassignClientFromEmployee int int

fun exec :: "Op \<Rightarrow> MemStorage \<Rightarrow> MemStorage" where
  "exec (CreateUser u) s = snd (createUser u s)"
| "exec (CreateClient c) s = snd (createClient c s)"
| "exec (UpdateClient i d) s = snd (updateClient i d s)"
| "exec (DeleteClient i) s = snd (deleteClient i s)"
| "exec (CreateService c) s = snd (createService c s)"
| "exec (UpdateService i d) s = snd (updateService i d s)"
| "exec (DeleteService i) s = snd (deleteService i s)"
| "exec (CreateProject c) s = snd (createProject c s)"
| "exec (UpdateProject i d) s = snd (updateProject i d s)"
| "exec (DeleteProject i) s = snd (deleteProject i s)"
| "exec (CreateProjectDocument c) s = snd (createProjectDocument c s)"
| "exec (DeleteProjectDocument i) s = snd (deleteProjectDocument i s)"
| "exec (AddServiceToClient cs) s = snd (addServiceToClient cs s)"
| "exec (RemoveServiceFromClient c v) s = snd (removeServiceFromClient c v s)"
| "exec (CreateNewClientContact c) s = snd (createNewClientContact c s)"
| "exec (UpdateNewClientContact i d) s = snd (updateNewClientContact i d s)"
| "exec (DeleteNewClientContact i) s = snd (deleteNewClientContact i s)"
| "exec (ConvertContactToClient i c) s = snd (convertContactToClient i c s)"
| "exec (CreateFollowUp c) s = snd (createFollowUp c s)"
| "exec (UpdateFollowUp i d) s = snd (updateFollowUp i d s)"
| "exec (DeleteFollowUp i) s = snd (deleteFollowUp i s)"
| "exec (CreateEmployee c) s = snd (createEmployee c s)"
| "exec (UpdateEmployee i d) s = snd (updateEmployee i d s)"
| "exec (DeleteEmployee i) s = snd (deleteEmployee i s)"
| "exec (AssignClientToEmployee ec) s = snd (assignClientToEmployee ec s)"
| "exec (UnassignClientFromEmployee e c) s = snd (unassignClientFromEmployee e c s)"

fun run :: "Op list \<Rightarrow> MemStorage \<Rightarrow> MemStorage" where
  "run [] s = s"
| "run (op # ops) s = run ops (exec op s)"

inductive reachable :: "MemStorage \<Rightarrow> bool" where
  fresh: "reachable newMemStorage"
| step: "reachable s \<Longrightarrow> reachable (exec op s)"

section \<open>Ids along a run\<close>

text \<open>
  The eight entities that have an id, the next id the store holds for each, the keys of
  each entity's map, the \<open>id\<close> properties of the records stored in it, and the entity
  and id of the record that a create operation returns.
\<close>

datatype Entity =
  EUser | EClient | EService | EProject | EProjectDocument | ENewClientContact | EFollowUp
  | EEmployee

fun nextId :: "Entity \<Rightarrow> MemStorage \<Rightarrow> int" where
  "nextId EUser s = MemStorage.userId s"
| "nextId EClient s = MemStorage.clientId s"
| "nextId EService s = MemStorage.serviceId s"
| "nextId EProject s = MemStorage.projectId s"
| "nextId EProjectDocument s = MemStorage.projectDocumentId s"
| "nextId ENewClientContact s = MemStorage.newClientContactId s"
| "nextId EFollowUp s = MemStorage.followUpId s"
| "nextId EEmployee s = MemStorage.employeeId s"

fun storeKeys :: "Entity \<Rightarrow> MemStorage \<Rightarrow> int list" where
  "storeKeys EUser s = Map_keys (userStore s)"
| "storeKeys EClient s = Map_keys (clientStore s)"
| "storeKeys EService s = Map_keys (serviceStore s)"
| "storeKeys EProject s = Map_keys (projectStore s)"
| "storeKeys EProjectDocument s = Map_keys (projectDocumentStore s)"
| "storeKeys ENewClientContact s = Map_keys (newClientContactStore s)"
| "storeKeys EFollowUp s = Map_keys (followUpStore s)"
| "storeKeys EEmployee s = Map_keys (employeeStore s)"

fun storeIds :: "Entity \<Rightarrow> MemStorage \<Rightarrow> int list" where
  "storeIds EUser s = map User.id (Map_values (userStore s))"
| "storeIds EClient s = map Client.id (Map_values (clientStore s))"
| "storeIds EService s = map Service.id (Map_values (serviceStore s))"
| "storeIds EProject s = map Project.id (Map_values (projectStore s))"
| "storeIds EProjectDocument s = map ProjectDocument.id (Map_values (projectDocumentStore s))"
| "storeIds ENewClientContact s =
     map NewClientContact.id (Map_values (newClientContactStore s))"
| "storeIds EFollowUp s = map FollowUp.id (Map_values (followUpStore s))"
| "storeIds EEmployee s = map Employee.id (Map_values (employeeStore s))"

fun created :: "Op \<Rightarrow> MemStorage \<Rightarrow> (Entity \<times> int) option" where
  "created (CreateUser u) s = Some (EUser, User.id (fst (createUser u s)))"
| "created (CreateClient c) s = Some (EClient, Client.id (fst (createClient c s)))"
| "created (CreateService c) s = Some (EService, Service.id (fst (createService c s)))"
| "created (CreateProject c) s = Some (EProject, Project.id (fst (createProject c s)))"
| "created (CreateProjectDocument c) s =
     Some (EProjectDocument, ProjectDocument.id (fst (createProjectDocument c s)))"
| "created (CreateNewClientContact c) s =
     Some (ENewClientContact, NewClientContact.id (fst (createNewClientContact c s)))"
| "created (CreateFollowUp c) s = Some (EFollowUp, FollowUp.id (fst (createFollowUp c s)))"
| "created (CreateEmployee c) s = Some (EEmployee, Employee.id (fst (createEmployee c s)))"
| "created op s = None"

definition assigned :: "Entity \<Rightarrow> Op \<Rightarrow> MemStorage \<Rightarrow> int option" where
  "assigned e op s =
     (case created op s of
        None \<Rightarrow> None
      | Some (e', i) \<Rightarrow> if e' = e then Some i else None)"

fun assignedIds :: "Entity \<Rightarrow> Op list \<Rightarrow> MemStorage \<Rightarrow> int list" where
  "assignedIds e [] s = []"
| "assignedIds e (op # ops) s =
     (case assigned e op s of None \<Rightarrow> [] | Some i \<Rightarrow> [i]) @ assignedIds e ops (exec op s)"

text \<open>Whether an operation is no update whose payload carries an \<open>id\<close>.\<close>

fun omitsId :: "Op \<Rightarrow> bool" where
  "omitsId (UpdateClient i d) = (PartialInsertClient.id d = None)"
| "omitsId (UpdateService i d) = (PartialInsertService.id d = None)"
| "omitsId (UpdateProject i d) = (PartialInsertProject.id d = None)"
| "omitsId (UpdateNewClientContact i d) = (PartialInsertNewClientContact.id d = None)"
| "omitsId (UpdateFollowUp i d) = (PartialInsertFollowUp.id d = None)"
| "omitsId (UpdateEmployee i d) = (PartialInsertEmployee.id d = None)"
| "omitsId op = True"

text \<open>
  Whether an operation is no update whose payload carries an \<open>id\<close> other than the id
  the update is called with.
\<close>

fun keepsId :: "Op \<Rightarrow> bool" where
  "keepsId (UpdateClient i d) =
     (PartialInsertClient.id d = None \<or> PartialInsertClient.id d = Some i)"
| "keepsId (UpdateService i d) =
     (PartialInsertService.id d = None \<or> PartialInsertService.id d = Some i)"
| "keepsId (UpdateProject i d) =
     (PartialInsertProject.id d = None \<or> PartialInsertProject.id d = Some i)"
| "keepsId (UpdateNewClientContact i d) =
     (PartialInsertNewClientContact.id d = None \<or> PartialInsertNewClientContact.id d = Some i)"
| "keepsId (UpdateFollowUp i d) =
     (PartialInsertFollowUp.id d = None \<or> PartialInsertFollowUp.id d = Some i)"
| "keepsId (UpdateEmployee i d) =
     (PartialInsertEmployee.id d = None \<or> PartialInsertEmployee.id d = Some i)"
| "keepsId op = True"

text \<open>A map is keyed by \<open>key\<close> when every value is stored under its own \<open>key\<close>.\<close>

definition keyedBy :: "('v \<Rightarrow> 'k) \<Rightarrow> ('k, 'v) Map \<Rightarrow> bool" where
  "keyedBy key m = list_all (\<lambda>(k, v). key v = k) m"

fun keyed :: "Entity \<Rightarrow> MemStorage \<Rightarrow> bool" where
  "keyed EUser s = keyedBy User.id (userStore s)"
| "keyed EClient s = keyedBy Client.id (clientStore s)"
| "keyed EService s = keyedBy Service.id (serviceStore s)"
| "keyed EProject s = keyedBy Project.id (projectStore s)"
| "keyed EProjectDocument s = keyedBy ProjectDocument.id (projectDocumentStore s)"
| "keyed ENewClientContact s = keyedBy NewClientContact.id (newClientContactStore s)"
| "keyed EFollowUp s = keyedBy FollowUp.id (followUpStore s)"
| "keyed EEmployee s = keyedBy Employee.id (employeeStore s)"

text \<open>The key under which the store files an association of a client and a service.\<close>

definition clientServiceKeyOf :: "ClientService \<Rightarrow> string" where
  "clientServiceKeyOf cs =
     clientServiceKey (ClientService.clientId cs) (ClientService.serviceId cs)"

text \<open>
  Whether the due date of a follow-up has a time value strictly below \<open>t\<close>; a due date
  that is not a date has none. And the count that the specification gives for the
  overdue follow-ups at one time \<open>t\<close>: the stored follow-ups whose status is \<open>Pending\<close>
  and whose due date lies strictly before \<open>t\<close>.
\<close>

definition dueBefore :: "(string \<Rightarrow> int option) \<Rightarrow> FollowUp \<Rightarrow> int \<Rightarrow> bool" where
  "dueBefore dateValue f t =
     (case dateValue (FollowUp.dueDate f) of None \<Rightarrow> False | Some d \<Rightarrow> d < t)"

definition overdueBefore :: "(string \<Rightarrow> int option) \<Rightarrow> int \<Rightarrow> MemStorage \<Rightarrow> nat" where
  "overdueBefore dateValue t s =
     length (filter (\<lambda>f. FollowUp.status f = Some ''Pending'' \<and> dueBefore dateValue f t)
               (map snd (followUpStore s)))"

section \<open>Example inputs\<close>

text \<open>Concrete inputs and runs, used to evaluate the properties below.\<close>

definition exampleContact :: InsertNewClientContact where
  "exampleContact =
     \<lparr>InsertNewClientContact.id = None, contactName = ''Ann Lee'',
      phoneEmail = ''ann@example.com'', contactedDate = ''2024-03-01'',
      contactMethod = ''Email'', responseType = ''Positive'', notes' = None,
      convertedToClient = Some False, convertedClientId = None\<rparr>"

definition exampleDateValue :: "string \<Rightarrow> int option" where
  "exampleDateValue str =
     (if str = ''2024-01-01'' then Some 1704067200000
      else if str = ''2024-01-02'' then Some 1704153600000
      else if str = ''2024-01-03'' then Some 1704240000000
      else None)"

definition exampleFollowUp :: "string \<Rightarrow> string option \<Rightarrow> InsertFollowUp" where
  "exampleFollowUp due st =
     \<lparr>InsertFollowUp.id = None, taskDescription = ''Call back'', clientId = None,
      relatedProjectId = None, assignedEmployeeId = 1, dueDate = due, status = st,
      notes' = None, createdById = 1\<rparr>"

definition exampleFollowUpOps :: "Op list" where
  "exampleFollowUpOps =
     [CreateFollowUp (exampleFollowUp ''2024-01-01'' (Some ''Pending'')),
      CreateFollowUp (exampleFollowUp ''2024-01-02'' (Some ''Pending'')),
      CreateFollowUp (exampleFollowUp ''2024-01-03'' (Some ''Pending'')),
      CreateFollowUp (exampleFollowUp ''2024-01-01'' (Some ''Done'')),
      CreateFollowUp (exampleFollowUp ''2024-01-01'' None),
      CreateFollowUp (exampleFollowUp ''soon'' (Some ''Pending''))]"

definition exampleDocument :: "int \<Rightarrow> InsertProjectDocument" where
  "exampleDocument p =
     \<lparr>InsertProjectDocument.id = None, projectId = p, filename = ''1700000000000_plan.pdf'',
      filepath = ''uploads/1700000000000_plan.pdf'', uploadDate = 1700000000000\<rparr>"

definition exampleDocumentOps :: "Op list" where
  "exampleDocumentOps =
     [CreateProjectDocument (exampleDocument 3), CreateProjectDocument (exampleDocument 0)]"

definition exampleClientService :: ClientService where
  "exampleClientService = \<lparr>ClientService.clientId = 1, serviceId = 2\<rparr>"

definition exampleClient :: InsertClient where
  "exampleClient =
     \<lparr>InsertClient.id = None, name = ''Acme Co'', phone = ''555-0100'', address = None,
      clientType = ''Company''\<rparr>"

definition idOnlyClient :: "int \<Rightarrow> PartialInsertClient" where
  "idOnlyClient j =
     \<lparr>PartialInsertClient.id = Some j, name = None, phone = None, address = None,
      clientType = None\<rparr>"

definition exampleIdClashOps :: "Op list" where
  "exampleIdClashOps =
     [CreateClient exampleClient, CreateClient exampleClient, UpdateClient 2 (idOnlyClient 1)]"

definition exampleDeleteOps :: "Op list" where
  "exampleDeleteOps =
     [CreateClient exampleClient, DeleteClient 1, CreateClient exampleClient,
      CreateEmployee seedEmployee, UpdateClient 2 (idOnlyClient 2)]"

definition exampleService :: InsertService where
  "exampleService =
     \<lparr>InsertService.id = None, name = ''Maintenance'', description = None,
      frequency = ''Monthly'', basePrice = Num 100\<rparr>"

definition exampleProject :: InsertProject where
  "exampleProject =
     \<lparr>InsertProject.id = None, clientId = 1, name = ''Website'',
      dateRequested = ''2024-01-01'', dateOfExecution = None, description = None,
      invoiceFile = Some (Val ''''), cost = Num 300, price = Num 500, duration = None,
      status = Some ''Pending''\<rparr>"

definition idOnlyService :: "int \<Rightarrow> PartialInsertService" where
  "idOnlyService j =
     \<lparr>PartialInsertService.id = Some j, name = None, description = None, frequency = None,
      basePrice = None\<rparr>"

definition idOnlyProject :: "int \<Rightarrow> PartialInsertProject" where
  "idOnlyProject j =
     \<lparr>PartialInsertProject.id = Some j, clientId = None, name = None, dateRequested = None,
      dateOfExecution = None, description = None, invoiceFile = None, cost = None,
      price = None, duration = None, status = None\<rparr>"

definition idOnlyNewClientContact :: "int \<Rightarrow> PartialInsertNewClientContact" where
  "idOnlyNewClientContact j =
     \<lparr>PartialInsertNewClientContact.id = Some j, contactName = None, phoneEmail = None,
      contactedDate = None, contactMethod = None, responseType = None, notes' = None,
      convertedToClient = None, convertedClientId = None\<rparr>"

definition idOnlyFollowUp :: "int \<Rightarrow> PartialInsertFollowUp" where
  "idOnlyFollowUp j =
     \<lparr>PartialInsertFollowUp.id = Some j, taskDescription = None, clientId = None,
      relatedProjectId = None, assignedEmployeeId = None, dueDate = None, status = None,
      notes' = None, createdById = None\<rparr>"

definition idOnlyEmployee :: "int \<Rightarrow> PartialInsertEmployee" where
  "idOnlyEmployee j =
     \<lparr>PartialInsertEmployee.id = Some j, name = None, email = None, role = None,
      activeStatus = None\<rparr>"

definition phoneOnlyClient :: "string \<Rightarrow> PartialInsertClient" where
  "phoneOnlyClient p =
     \<lparr>PartialInsertClient.id = None, name = None, phone = Some p, address = None,
      clientType = None\<rparr>"

definition statusOnlyProject :: "string \<Rightarrow> PartialInsertProject" where
  "statusOnlyProject st =
     \<lparr>PartialInsertProject.id = None, clientId = None, name = None, dateRequested = None,
      dateOfExecution = None, description = None, invoiceFile = None, cost = None,
      price = None, duration = None, status = Some st\<rparr>"

definition exampleOps :: "Op list" where
  "exampleOps =
     [CreateClient exampleClient, CreateService exampleService, CreateProject exampleProject,
      CreateNewClientContact exampleContact,
      CreateFollowUp (exampleFollowUp ''2024-01-01'' (Some ''Pending''))]"

definition scenarioOps :: "Op list" where
  "scenarioOps = [CreateClient exampleClient, CreateProject exampleProject]"

definition exampleRound :: "real \<Rightarrow> number" where
  "exampleRound x = Num x"

definition steadyClock :: "int \<Rightarrow> nat \<Rightarrow> int" where
  "steadyClock t k = t"

definition tickingClock :: "nat \<Rightarrow> int" where
  "tickingClock k = (if k = 0 then 1704153600000 else 1704153600001)"

definition exampleTickOps :: "Op list" where
  "exampleTickOps =
     [CreateFollowUp (exampleFollowUp ''2024-01-02'' (Some ''Pending'')),
      CreateFollowUp (exampleFollowUp ''2024-01-02'' (Some ''Pending''))]"

definition pricedProject :: "real \<Rightarrow> string \<Rightarrow> InsertProject" where
  "pricedProject p st =
     \<lparr>InsertProject.id = None, clientId = 1, name = ''Website'',
      dateRequested = ''2024-01-01'', dateOfExecution = None, description = None,
      invoiceFile = Some (Val ''''), cost = Num 0, price = Num p, duration = None,
      status = Some st\<rparr>"

definition exampleRevenueOps :: "Op list" where
  "exampleRevenueOps =
     [CreateProject (pricedProject 500 ''Pending''),
      CreateProject (pricedProject 250 ''Completed'')]"

section \<open>Properties of the store\<close>

subsection \<open>Facts about doubles\<close>

lemma isDouble_of_int:
  assumes "\<bar>m\<bar> < 2 ^ 53"
  shows "isDouble (of_int m)"
proof -
  from assms have "m \<in> {- (2 ^ 53 - 1) .. 2 ^ 53 - 1}" by auto
  moreover have "(0::int) \<in> {- 1074 .. 971}" by simp
  moreover have "(of_int m :: real) = of_int m * 2 powi 0" by simp
  ultimately show ?thesis unfolding isDouble_def by blast
qed

lemma isDouble_500: "isDouble 500"
  using isDouble_of_int [of 500] by simp

subsection \<open>Facts about the map operations\<close>

lemma Map_get_set_same: "Map_get (Map_set k v m) k = Some v"
  by (simp add: Map_get_def Map_set_def update_conv')

lemma Map_get_set_other: "k' \<noteq> k \<Longrightarrow> Map_get (Map_set k v m) k' = Map_get m k'"
  by (simp add: Map_get_def Map_set_def update_conv')

lemma Map_values_set_mem: "v \<in> set (Map_values (Map_set k v m))"
  unfolding Map_values_def Map_set_def
  by (induction m) auto

subsection \<open>Create, then get\<close>

lemma create_get_User:
  "getUser (User.id (fst (createUser u s))) (snd (createUser u s)) = Some (fst (createUser u s))
   \<and> fst (createUser u s) =
       \<lparr>User.id = MemStorage.userId s, username = InsertUser.username u,
        password = InsertUser.password u, employeeId = InsertUser.employeeId u\<rparr>"
  by (simp add: getUser_def createUser_def User_withId_def Let_def Map_get_set_same)

lemma create_get_Client:
  "getClient (Client.id (fst (createClient c s))) (snd (createClient c s))
     = Some (fst (createClient c s))
   \<and> fst (createClient c s) =
       \<lparr>Client.id = MemStorage.clientId s, name = InsertClient.name c,
        phone = InsertClient.phone c, address = InsertClient.address c,
        clientType = InsertClient.clientType c\<rparr>"
  by (simp add: getClient_def createClient_def Client_withId_def Let_def Map_get_set_same)

lemma create_get_Service:
  "getService (Service.id (fst (createService v s))) (snd (createService v s))
     = Some (fst (createService v s))
   \<and> fst (createService v s) =
       \<lparr>Service.id = MemStorage.serviceId s, name = InsertService.name v,
        description = InsertService.description v, frequency = InsertService.frequency v,
        basePrice = InsertService.basePrice v\<rparr>"
  by (simp add: getService_def createService_def Service_withId_def Let_def Map_get_set_same)

lemma create_get_Project:
  "getProject (Project.id (fst (createProject p s))) (snd (createProject p s))
     = Some (fst (createProject p s))
   \<and> fst (createProject p s) =
       \<lparr>Project.id = MemStorage.projectId s, clientId = InsertProject.clientId p,
        name = InsertProject.name p, dateRequested = InsertProject.dateRequested p,
        dateOfExecution = InsertProject.dateOfExecution p,
        description = InsertProject.description p,
        invoiceFile = InsertProject.invoiceFile p,
        cost = InsertProject.cost p, price = InsertProject.price p,
        duration = InsertProject.duration p, status = InsertProject.status p\<rparr>"
  by (simp add: getProject_def createProject_def Project_withId_def Let_def Map_get_set_same)

lemma create_get_ProjectDocument:
  "fst (createProjectDocument d s)
     \<in> set (getProjectDocuments (InsertProjectDocument.projectId d)
              (snd (createProjectDocument d s)))
   \<and> fst (createProjectDocument d s) =
       \<lparr>ProjectDocument.id = MemStorage.projectDocumentId s,
        projectId = InsertProjectDocument.projectId d,
        filename = InsertProjectDocument.filename d,
        filepath = InsertProjectDocument.filepath d,
        uploadDate = InsertProjectDocument.uploadDate d\<rparr>"
  by (simp add: getProjectDocuments_def createProjectDocument_def ProjectDocument_withId_def
      Let_def Map_values_set_mem)

lemma create_get_NewClientContact:
  "getNewClientContact (NewClientContact.id (fst (createNewClientContact n s)))
       (snd (createNewClientContact n s))
     = Some (fst (createNewClientContact n s))
   \<and> fst (createNewClientContact n s) =
       \<lparr>NewClientContact.id = MemStorage.newClientContactId s,
        contactName = InsertNewClientContact.contactName n,
        phoneEmail = InsertNewClientContact.phoneEmail n,
        contactedDate = InsertNewClientContact.contactedDate n,
        contactMethod = InsertNewClientContact.contactMethod n,
        responseType = InsertNewClientContact.responseType n,
        notes' = InsertNewClientContact.notes' n,
        convertedToClient = InsertNewClientContact.convertedToClient n,
        convertedClientId = InsertNewClientContact.convertedClientId n\<rparr>"
  by (simp add: getNewClientContact_def createNewClientContact_def NewClientContact_withId_def
      Let_def Map_get_set_same)

lemma create_get_FollowUp:
  "getFollowUp (FollowUp.id (fst (createFollowUp f s))) (snd (createFollowUp f s))
     = Some (fst (createFollowUp f s))
   \<and> fst (createFollowUp f s) =
       \<lparr>FollowUp.id = MemStorage.followUpId s,
        taskDescription = InsertFollowUp.taskDescription f,
        clientId = InsertFollowUp.clientId f,
        relatedProjectId = InsertFollowUp.relatedProjectId f,
        assignedEmployeeId = InsertFollowUp.assignedEmployeeId f,
        dueDate = InsertFollowUp.dueDate f, status = InsertFollowUp.status f,
        notes' = InsertFollowUp.notes' f, createdById = InsertFollowUp.createdById f\<rparr>"
  by (simp add: getFollowUp_def createFollowUp_def FollowUp_withId_def Let_def Map_get_set_same)

lemma create_get_Employee:
  "getEmployee (Employee.id (fst (createEmployee e s))) (snd (createEmployee e s))
     = Some (fst (createEmployee e s))
   \<and> fst (createEmployee e s) =
       \<lparr>Employee.id = MemStorage.employeeId s, name = InsertEmployee.name e,
        email = InsertEmployee.email e, role = InsertEmployee.role e,
        activeStatus = InsertEmployee.activeStatus e\<rparr>"
  by (simp add: getEmployee_def createEmployee_def Employee_withId_def Let_def Map_get_set_same)

text \<open>
  C1. For every entity, in every store and for every insert input, \<open>create\<close> followed by
  \<open>get\<close> with the id of the returned record yields the returned record, and that record
  has the properties of the input with \<open>id\<close> set to the store's next id (an \<open>id\<close> the
  input may carry is replaced). Project documents have no \<open>get\<close> by id: the new document
  is among those that \<open>getProjectDocuments\<close> lists for its project.
\<close>

theorem create_then_get:
  "(getUser (User.id (fst (createUser u s))) (snd (createUser u s)) = Some (fst (createUser u s))
    \<and> fst (createUser u s) =
       \<lparr>User.id = MemStorage.userId s, username = InsertUser.username u,
        password = InsertUser.password u, employeeId = InsertUser.employeeId u\<rparr>)
   \<and> (getClient (Client.id (fst (createClient c s))) (snd (createClient c s))
         = Some (fst (createClient c s))
    \<and> fst (createClient c s) =
       \<lparr>Client.id = MemStorage.clientId s, name = InsertClient.name c,
        phone = InsertClient.phone c, address = InsertClient.address c,
        clientType = InsertClient.clientType c\<rparr>)
   \<and> (getService (Service.id (fst (createService v s))) (snd (createService v s))
         = Some (fst (createService v s))
    \<and> fst (createService v s) =
       \<lparr>Service.id = MemStorage.serviceId s, name = InsertService.name v,
        description = InsertService.description v, frequency = InsertService.frequency v,
        basePrice = InsertService.basePrice v\<rparr>)
   \<and> (getProject (Project.id (fst (createProject p s))) (snd (createProject p s))
         = Some (fst (createProject p s))
    \<and> fst (createProject p s) =
       \<lparr>Project.id = MemStorage.projectId s, clientId = InsertProject.clientId p,
        name = InsertProject.name p, dateRequested = InsertProject.dateRequested p,
        dateOfExecution = InsertProject.dateOfExecution p,
        description = InsertProject.description p,
        invoiceFile = InsertProject.invoiceFile p,
        cost = InsertProject.cost p, price = InsertProject.price p,
        duration = InsertProject.duration p, status = InsertProject.status p\<rparr>)
   \<and> (fst (createProjectDocument d s)
         \<in> set (getProjectDocuments (InsertProjectDocument.projectId d)
                  (snd (createProjectDocument d s)))
    \<and> fst (createProjectDocument d s) =
       \<lparr>ProjectDocument.id = MemStorage.projectDocumentId s,
        projectId = InsertProjectDocument.projectId d,
        filename = InsertProjectDocument.filename d,
        filepath = InsertProjectDocument.filepath d,
        uploadDate = InsertProjectDocument.uploadDate d\<rparr>)
   \<and> (getNewClientContact (NewClientContact.id (fst (createNewClientContact n s)))
         (snd (createNewClientContact n s))
         = Some (fst (createNewClientContact n s))
    \<and> fst (createNewClientContact n s) =
       \<lparr>NewClientContact.id = MemStorage.newClientContactId s,
        contactName = InsertNewClientContact.contactName n,
        phoneEmail = InsertNewClientContact.phoneEmail n,
        contactedDate = InsertNewClientContact.contactedDate n,
        contactMethod = InsertNewClientContact.contactMethod n,
        responseType = InsertNewClientContact.responseType n,
        notes' = InsertNewClientContact.notes' n,
        convertedToClient = InsertNewClientContact.convertedToClient n,
        convertedClientId = InsertNewClientContact.convertedClientId n\<rparr>)
   \<and> (getFollowUp (FollowUp.id (fst (createFollowUp f s))) (snd (createFollowUp f s))
         = Some (fst (createFollowUp f s))
    \<and> fst (createFollowUp f s) =
       \<lparr>FollowUp.id = MemStorage.followUpId s,
        taskDescription = InsertFollowUp.taskDescription f,
        clientId = InsertFollowUp.clientId f,
        relatedProjectId = InsertFollowUp.relatedProjectId f,
        assignedEmployeeId = InsertFollowUp.assignedEmployeeId f,
        dueDate = InsertFollowUp.dueDate f, status = InsertFollowUp.status f,
        notes' = InsertFollowUp.notes' f, createdById = InsertFollowUp.createdById f\<rparr>)
   \<and> (getEmployee (Employee.id (fst (createEmployee e s))) (snd (createEmployee e s))
         = Some (fst (createEmployee e s))
    \<and> fst (createEmployee e s) =
       \<lparr>Employee.id = MemStorage.employeeId s, name = InsertEmployee.name e,
        email = InsertEmployee.email e, role = InsertEmployee.role e,
        activeStatus = InsertEmployee.activeStatus e\<rparr>)"
  using create_get_User [of u s] create_get_Client [of c s] create_get_Service [of v s]
    create_get_Project [of p s] create_get_ProjectDocument [of d s]
    create_get_NewClientContact [of n s] create_get_FollowUp [of f s]
    create_get_Employee [of e s]
  by blast

subsection \<open>Updating an id that is not stored\<close>

text \<open>
  C2. For each of the six entities that have an update, in every store, for every id
  under which the entity's map holds nothing and every payload: the update returns
  \<open>undefined\<close> (\<open>None\<close>) and the store it leaves is the store it was given; in particular
  the id is still not stored.
\<close>

theorem update_missing_id:
  "(getClient i s = None \<longrightarrow>
      updateClient i cd s = (None, s) \<and> getClient i (snd (updateClient i cd s)) = None)
   \<and> (getService i s = None \<longrightarrow>
      updateService i vd s = (None, s) \<and> getService i (snd (updateService i vd s)) = None)
   \<and> (getProject i s = None \<longrightarrow>
      updateProject i pd s = (None, s) \<and> getProject i (snd (updateProject i pd s)) = None)
   \<and> (getNewClientContact i s = None \<longrightarrow>
      updateNewClientContact i nd s = (None, s)
      \<and> getNewClientContact i (snd (updateNewClientContact i nd s)) = None)
   \<and> (getFollowUp i s = None \<longrightarrow>
      updateFollowUp i fd s = (None, s) \<and> getFollowUp i (snd (updateFollowUp i fd s)) = None)
   \<and> (getEmployee i s = None \<longrightarrow>
      updateEmployee i ed s = (None, s) \<and> getEmployee i (snd (updateEmployee i ed s)) = None)"
  by (simp add: getClient_def updateClient_def getService_def updateService_def
      getProject_def updateProject_def getNewClientContact_def updateNewClientContact_def
      getFollowUp_def updateFollowUp_def getEmployee_def updateEmployee_def)

lemma newMemStorage_eq:
  "newMemStorage =
     \<lparr>userStore = [(1, \<lparr>User.id = 1, username = ''admin'', password = ''password'',
                          employeeId = Some (Val 1)\<rparr>)],
      clientStore = [], serviceStore = [], projectStore = [],
      projectDocumentStore = [], clientServiceStore = [], newClientContactStore = [],
      followUpStore = [],
      employeeStore = [(1, \<lparr>Employee.id = 1, name = ''John Doe'',
                              email = ''john@example.com'', role = ''Manager'',
                              activeStatus = Some True\<rparr>)],
      employeeClientStore = [],
      userId = 2, clientId = 1, serviceId = 1, projectId = 1, projectDocumentId = 1,
      newClientContactId = 1, followUpId = 1, employeeId = 2\<rparr>"
  by (simp add: newMemStorage_def seedInitialData_def emptyStorage_def createUser_def
      createEmployee_def seedUser_def seedEmployee_def User_withId_def Employee_withId_def
      Map_set_def Let_def)

theorem update_missing_id_witness:
  "getClient 7 newMemStorage = None
   \<and> updateClient 7
        \<lparr>PartialInsertClient.id = None, name = Some ''Acme'', phone = None, address = None,
         clientType = None\<rparr> newMemStorage = (None, newMemStorage)
   \<and> getService 7 newMemStorage = None
   \<and> updateService 7
        \<lparr>PartialInsertService.id = None, name = Some ''Audit'', description = None,
         frequency = None, basePrice = Some (Num 10)\<rparr> newMemStorage = (None, newMemStorage)
   \<and> getProject 7 newMemStorage = None
   \<and> updateProject 7
        \<lparr>PartialInsertProject.id = None, clientId = None, name = None, dateRequested = None,
         dateOfExecution = None, description = None, invoiceFile = None, cost = None,
         price = Some (Num 500), duration = None, status = Some ''Completed''\<rparr> newMemStorage
       = (None, newMemStorage)
   \<and> getNewClientContact 7 newMemStorage = None
   \<and> updateNewClientContact 7
        \<lparr>PartialInsertNewClientContact.id = None, contactName = Some ''Ann'',
         phoneEmail = None, contactedDate = None, contactMethod = None, responseType = None,
         notes' = None, convertedToClient = None, convertedClientId = None\<rparr> newMemStorage
       = (None, newMemStorage)
   \<and> getFollowUp 7 newMemStorage = None
   \<and> updateFollowUp 7
        \<lparr>PartialInsertFollowUp.id = None, taskDescription = None, clientId = None,
         relatedProjectId = None, assignedEmployeeId = None, dueDate = None,
         status = Some ''Done'', notes' = None, createdById = None\<rparr> newMemStorage
       = (None, newMemStorage)
   \<and> getEmployee 7 newMemStorage = None
   \<and> updateEmployee 7
        \<lparr>PartialInsertEmployee.id = None, name = None, email = None, role = Some ''Sales'',
         activeStatus = None\<rparr> newMemStorage = (None, newMemStorage)"
proof -
  have g: "getClient 7 newMemStorage = None" "getService 7 newMemStorage = None"
    "getProject 7 newMemStorage = None" "getNewClientContact 7 newMemStorage = None"
    "getFollowUp 7 newMemStorage = None" "getEmployee 7 newMemStorage = None"
    by (simp_all add: newMemStorage_eq getClient_def getService_def getProject_def
        getNewClientContact_def getFollowUp_def getEmployee_def Map_get_def)
  show ?thesis
    using g update_missing_id [of 7 newMemStorage] by simp
qed

subsection \<open>Converting a contact\<close>

text \<open>
  C5. \<open>convertContactToClient contactId clientId\<close> returns \<open>false\<close> and leaves the store
  as it was when no contact is stored under \<open>contactId\<close>. When a contact is stored there,
  it returns \<open>true\<close>, the contact is stored with \<open>convertedToClient = true\<close> and
  \<open>convertedClientId = clientId\<close> and its other properties unchanged, every other contact
  is unchanged, and the client map is unchanged: nothing is asked of \<open>clientId\<close>, so this
  is so as well when no client is stored under it, and no client is created.
\<close>

theorem convertContactToClient_spec:
  "(getNewClientContact contactId s = None \<longrightarrow>
      convertContactToClient contactId clientId' s = (False, s))
   \<and> (\<forall>contact. getNewClientContact contactId s = Some contact \<longrightarrow>
        fst (convertContactToClient contactId clientId' s) = True
        \<and> getNewClientContact contactId (snd (convertContactToClient contactId clientId' s))
            = Some (contact\<lparr>NewClientContact.convertedToClient := Some True,
                             NewClientContact.convertedClientId := Some (Val clientId')\<rparr>)
        \<and> (\<forall>k. k \<noteq> contactId \<longrightarrow>
              getNewClientContact k (snd (convertContactToClient contactId clientId' s))
                = getNewClientContact k s)
        \<and> clientStore (snd (convertContactToClient contactId clientId' s)) = clientStore s
        \<and> getClient clientId' (snd (convertContactToClient contactId clientId' s))
            = getClient clientId' s)"
  by (simp add: getNewClientContact_def convertContactToClient_def getClient_def
      Map_get_set_same Map_get_set_other)

lemma storeWithContact_eq:
  "snd (createNewClientContact exampleContact newMemStorage) =
     newMemStorage
       \<lparr>MemStorage.newClientContactId := 2,
        newClientContactStore :=
          [(1, \<lparr>NewClientContact.id = 1, contactName = ''Ann Lee'',
                 phoneEmail = ''ann@example.com'', contactedDate = ''2024-03-01'',
                 contactMethod = ''Email'', responseType = ''Positive'', notes' = None,
                 convertedToClient = Some False, convertedClientId = None\<rparr>)]\<rparr>"
  by (simp add: createNewClientContact_def exampleContact_def NewClientContact_withId_def
      newMemStorage_eq Map_set_def Let_def)

theorem convertContactToClient_spec_witness:
  "getNewClientContact 5 newMemStorage = None
   \<and> convertContactToClient 5 99 newMemStorage = (False, newMemStorage)
   \<and> getClient 99 (snd (createNewClientContact exampleContact newMemStorage)) = None
   \<and> getNewClientContact 1 (snd (createNewClientContact exampleContact newMemStorage))
       = Some \<lparr>NewClientContact.id = 1, contactName = ''Ann Lee'',
               phoneEmail = ''ann@example.com'', contactedDate = ''2024-03-01'',
               contactMethod = ''Email'', responseType = ''Positive'', notes' = None,
               convertedToClient = Some False, convertedClientId = None\<rparr>
   \<and> fst (convertContactToClient 1 99
            (snd (createNewClientContact exampleContact newMemStorage))) = True
   \<and> getNewClientContact 1
        (snd (convertContactToClient 1 99
               (snd (createNewClientContact exampleContact newMemStorage))))
       = Some \<lparr>NewClientContact.id = 1, contactName = ''Ann Lee'',
               phoneEmail = ''ann@example.com'', contactedDate = ''2024-03-01'',
               contactMethod = ''Email'', responseType = ''Positive'', notes' = None,
               convertedToClient = Some True, convertedClientId = Some (Val 99)\<rparr>
   \<and> getNewClientContact 2
        (snd (convertContactToClient 1 99
               (snd (createNewClientContact exampleContact newMemStorage)))) = None
   \<and> getClient 99
        (snd (convertContactToClient 1 99
               (snd (createNewClientContact exampleContact newMemStorage)))) = None"
proof -
  let ?s = "snd (createNewClientContact exampleContact newMemStorage)"
  have a: "getNewClientContact 5 newMemStorage = None"
    by (simp add: newMemStorage_eq getNewClientContact_def Map_get_def)
  have b: "getClient 99 ?s = None"
    unfolding storeWithContact_eq
    by (simp add: newMemStorage_eq getClient_def Map_get_def)
  have c: "getNewClientContact 1 ?s
       = Some \<lparr>NewClientContact.id = 1, contactName = ''Ann Lee'',
               phoneEmail = ''ann@example.com'', contactedDate = ''2024-03-01'',
               contactMethod = ''Email'', responseType = ''Positive'', notes' = None,
               convertedToClient = Some False, convertedClientId = None\<rparr>"
    unfolding storeWithContact_eq
    by (simp add: getNewClientContact_def Map_get_def)
  have d: "getNewClientContact 2 ?s = None"
    unfolding storeWithContact_eq
    by (simp add: getNewClientContact_def Map_get_def)
  show ?thesis
    using a b c d convertContactToClient_spec [of 5 newMemStorage 99]
      convertContactToClient_spec [of 1 ?s 99]
    by simp
qed

subsection \<open>The dashboard counters\<close>

lemma foldl_map_snd: "foldl (\<lambda>a x. g a (h x)) a (map snd m) = foldl (\<lambda>a (k, x). g a (h x)) a m"
  by (induction m arbitrary: a) (simp_all add: case_prod_unfold)

lemma totalRevenue_eq:
  "totalRevenue (dashboard rnd dateValue clock s)
     = foldl (\<lambda>sum (k, p). jsAdd rnd sum (Project.price p)) (Num 0) (projectStore s)"
  by (simp add: dashboard_def Let_def getProjects_def Map_values_def foldl_map_snd)

lemma Map_set_same_image:
  "Map_get m k = Some v \<Longrightarrow> h v' = h v \<Longrightarrow> map (\<lambda>(k, x). h x) (Map_set k v' m) = map (\<lambda>(k, x). h x) m"
  unfolding Map_get_def Map_set_def
  by (induction m) (auto split: if_splits)

lemma foldl_image:
  "foldl (\<lambda>a (k, x). g a (h x)) a m = foldl g a (map (\<lambda>(k, x). h x) m)"
  by (induction m arbitrary: a) (simp_all add: case_prod_unfold)

lemma foldl_by_image:
  "map (\<lambda>(k, x). h x) m = map (\<lambda>(k, x). h x) m'
     \<Longrightarrow> foldl (\<lambda>a (k, x). g a (h x)) a m = foldl (\<lambda>a (k, x). g a (h x)) a m'"
  by (simp add: foldl_image)

lemma totalRevenue_updateProject:
  assumes "PartialInsertProject.price pd = None"
  shows "totalRevenue (dashboard rnd dateValue clock (snd (updateProject i pd s)))
           = totalRevenue (dashboard rnd dateValue clock s)"
proof (cases "Map_get (projectStore s) i")
  case None
  then show ?thesis by (simp add: updateProject_def)
next
  case (Some p)
  from assms have "Project.price (Project_merge p pd) = Project.price p"
    by (simp add: Project_merge_def spread_def)
  with Some have "map (\<lambda>(k, x). Project.price x) (Map_set i (Project_merge p pd) (projectStore s))
                    = map (\<lambda>(k, x). Project.price x) (projectStore s)"
    by (rule Map_set_same_image)
  then have "foldl (\<lambda>sum (k, p). jsAdd rnd sum (Project.price p)) (Num 0)
               (Map_set i (Project_merge p pd) (projectStore s))
             = foldl (\<lambda>sum (k, p). jsAdd rnd sum (Project.price p)) (Num 0) (projectStore s)"
    by (rule foldl_by_image)
  with Some show ?thesis
    by (simp add: totalRevenue_eq updateProject_def Let_def)
qed

text \<open>
  C3. \<open>totalRevenue\<close> is the sum, from 0 and in the order of the map, of the \<open>price\<close> of
  every entry of the project map, added with the addition of JavaScript numbers; the
  status of a project is not consulted: an update of a project that carries no price,
  so every change of a status, leaves \<open>totalRevenue\<close> as it was. The route answers an
  authenticated request with status 200 and this value.
\<close>

theorem totalRevenue_all_projects:
  "totalRevenue (dashboard rnd dateValue clock s)
     = foldl (\<lambda>sum (k, p). jsAdd rnd sum (Project.price p)) (Num 0) (projectStore s)
   \<and> (PartialInsertProject.price pd = None \<longrightarrow>
        totalRevenue (dashboard rnd dateValue clock (snd (updateProject i pd s)))
          = totalRevenue (dashboard rnd dateValue clock s))
   \<and> dashboardRoute rnd dateValue clock True s = Json 200 (dashboard rnd dateValue clock s)"
  using totalRevenue_eq [of rnd dateValue clock s]
    totalRevenue_updateProject [of pd rnd dateValue clock i s]
  by (simp add: dashboardRoute_def)

lemma isDouble_750: "isDouble 750"
  using isDouble_of_int [of 750] by simp

lemma exampleRevenue_store:
  "projectStore (run exampleRevenueOps newMemStorage) =
     [(1, Project_withId (pricedProject 500 ''Pending'') 1),
      (2, Project_withId (pricedProject 250 ''Completed'') 2)]"
  by (simp add: exampleRevenueOps_def newMemStorage_eq createProject_def Map_set_def Let_def)

theorem totalRevenue_all_projects_witness:
  "map (\<lambda>(k, p). (Project.status p, Project.price p))
       (projectStore (run exampleRevenueOps newMemStorage))
     = [(Some ''Pending'', Num 500), (Some ''Completed'', Num 250)]
   \<and> totalRevenue
        (dashboard exampleRound exampleDateValue tickingClock
           (run exampleRevenueOps newMemStorage)) = Num 750
   \<and> PartialInsertProject.price (statusOnlyProject ''Completed'') = None
   \<and> map (\<lambda>(k, p). (Project.status p, Project.price p))
       (projectStore
          (snd (updateProject 1 (statusOnlyProject ''Completed'')
                 (run exampleRevenueOps newMemStorage))))
     = [(Some ''Completed'', Num 500), (Some ''Completed'', Num 250)]
   \<and> totalRevenue
        (dashboard exampleRound exampleDateValue tickingClock
           (snd (updateProject 1 (statusOnlyProject ''Completed'')
                  (run exampleRevenueOps newMemStorage)))) = Num 750"
proof -
  let ?s = "run exampleRevenueOps newMemStorage"
  note st = exampleRevenue_store
  have m: "map (\<lambda>(k, p). (Project.status p, Project.price p)) (projectStore ?s)
     = [(Some ''Pending'', Num 500), (Some ''Completed'', Num 250)]"
    unfolding st by (simp add: Project_withId_def pricedProject_def)
  have f: "foldl (\<lambda>sum (k, p). jsAdd exampleRound sum (Project.price p)) (Num 0) (projectStore ?s)
             = Num 750"
    unfolding st
    by (simp add: Project_withId_def pricedProject_def isDouble_500 isDouble_750)
  have p: "PartialInsertProject.price (statusOnlyProject ''Completed'') = None"
    by (simp add: statusOnlyProject_def)
  have u: "projectStore (snd (updateProject 1 (statusOnlyProject ''Completed'') ?s))
     = [(1, Project_merge (Project_withId (pricedProject 500 ''Pending'') 1)
              (statusOnlyProject ''Completed'')),
        (2, Project_withId (pricedProject 250 ''Completed'') 2)]"
    by (simp add: updateProject_def st Map_get_def Map_set_def Let_def)
  have m': "map (\<lambda>(k, p). (Project.status p, Project.price p))
       (projectStore (snd (updateProject 1 (statusOnlyProject ''Completed'') ?s)))
     = [(Some ''Completed'', Num 500), (Some ''Completed'', Num 250)]"
    unfolding u
    by (simp add: Project_merge_def Project_withId_def pricedProject_def statusOnlyProject_def
        spread_def spreadOpt_def)
  show ?thesis
    using m f p m'
      totalRevenue_all_projects [of exampleRound exampleDateValue tickingClock ?s
        "statusOnlyProject ''Completed''" 1]
    by simp
qed

lemma isOverdue_eq:
  "isOverdue dateValue clock n f =
     (FollowUp.status f = Some ''Pending''
        \<and> dueBefore dateValue f (clock n),
      if FollowUp.status f = Some ''Pending'' then Suc n else n)"
  by (simp add: isOverdue_def dueBefore_def Let_def)

lemma dueBefore_mono: "dueBefore dateValue f t \<Longrightarrow> t \<le> t' \<Longrightarrow> dueBefore dateValue f t'"
  by (auto simp add: dueBefore_def split: option.splits)

lemma filterClock_Cons:
  "fst (filterClock (isOverdue dateValue clock) n (f # fs)) =
     (if FollowUp.status f = Some ''Pending''
         \<and> dueBefore dateValue f (clock n)
      then [f] else [])
     @ fst (filterClock (isOverdue dateValue clock)
              (if FollowUp.status f = Some ''Pending'' then Suc n else n) fs)"
  by (simp add: isOverdue_eq split_def Let_def)

lemma length_filter_upt_Suc:
  "length (filter P [0..<Suc k]) = (if P 0 then 1 else 0) + length (filter (\<lambda>j. P (Suc j)) [0..<k])"
proof -
  have "[0..<Suc k] = 0 # map Suc [0..<k]"
    by (simp add: upt_conv_Cons map_Suc_upt del: upt_Suc)
  then show ?thesis
    by (simp add: filter_map comp_def del: upt_Suc)
qed

lemma overdue_by_reading:
  "length (fst (filterClock (isOverdue dateValue clock) n fs)) =
     length (filter
       (\<lambda>j. FollowUp.status (fs ! j) = Some ''Pending''
            \<and> dueBefore dateValue (fs ! j)
                 (clock (n + length (filter (\<lambda>f. FollowUp.status f = Some ''Pending'')
                                       (take j fs)))))
       [0..<length fs])"
proof (induction fs arbitrary: n)
  case Nil
  show ?case by simp
next
  case (Cons f fs)
  show ?case
  proof (cases "FollowUp.status f = Some ''Pending''")
    case True
    with Cons.IH [of "Suc n"] show ?thesis
      unfolding filterClock_Cons length_Cons length_filter_upt_Suc
      by simp
  next
    case False
    with Cons.IH [of n] show ?thesis
      unfolding filterClock_Cons length_Cons length_filter_upt_Suc
      by simp
  qed
qed

lemma overdue_steady:
  assumes "\<forall>k. clock k = t"
  shows "length (fst (filterClock (isOverdue dateValue clock) n fs)) =
           length (filter (\<lambda>f. FollowUp.status f = Some ''Pending'' \<and> dueBefore dateValue f t) fs)"
proof (induction fs arbitrary: n)
  case Nil
  show ?case by simp
next
  case (Cons f fs)
  from assms have "clock n = t" by simp
  with Cons.IH [of "if FollowUp.status f = Some ''Pending'' then Suc n else n"]
  show ?case
    unfolding filterClock_Cons by simp
qed

lemma overdue_between:
  assumes "\<forall>k. t0 \<le> clock k \<and> clock k \<le> t1"
  shows "length (filter (\<lambda>f. FollowUp.status f = Some ''Pending'' \<and> dueBefore dateValue f t0) fs)
           \<le> length (fst (filterClock (isOverdue dateValue clock) n fs))
         \<and> length (fst (filterClock (isOverdue dateValue clock) n fs))
           \<le> length (filter (\<lambda>f. FollowUp.status f = Some ''Pending''
                                  \<and> dueBefore dateValue f t1) fs)"
proof (induction fs arbitrary: n)
  case Nil
  show ?case by simp
next
  case (Cons f fs)
  let ?n' = "if FollowUp.status f = Some ''Pending'' then Suc n else n"
  from assms have lo: "t0 \<le> clock n" and hi: "clock n \<le> t1" by simp_all
  have a: "dueBefore dateValue f t0 \<Longrightarrow> dueBefore dateValue f (clock n)"
    using lo by (rule dueBefore_mono [rotated])
  have b: "dueBefore dateValue f (clock n) \<Longrightarrow> dueBefore dateValue f t1"
    using hi by (rule dueBefore_mono [rotated])
  from Cons.IH [of ?n'] a b show ?case
    unfolding filterClock_Cons
    by auto
qed

lemma overdueFollowUps_eq:
  "overdueFollowUps (dashboard rnd dateValue clock s)
     = length (fst (filterClock (isOverdue dateValue clock) 0 (map snd (followUpStore s))))"
  by (simp add: dashboard_def Let_def getFollowUps_def Map_values_def)

lemma exampleTick_store:
  "followUpStore (run exampleTickOps newMemStorage) =
     [(1, FollowUp_withId (exampleFollowUp ''2024-01-02'' (Some ''Pending'')) 1),
      (2, FollowUp_withId (exampleFollowUp ''2024-01-02'' (Some ''Pending'')) 2)]"
  by (simp add: exampleTickOps_def newMemStorage_eq createFollowUp_def Map_set_def Let_def)

lemma exampleFollowUps_store:
  "followUpStore (run exampleFollowUpOps newMemStorage) =
     [(1, FollowUp_withId (exampleFollowUp ''2024-01-01'' (Some ''Pending'')) 1),
      (2, FollowUp_withId (exampleFollowUp ''2024-01-02'' (Some ''Pending'')) 2),
      (3, FollowUp_withId (exampleFollowUp ''2024-01-03'' (Some ''Pending'')) 3),
      (4, FollowUp_withId (exampleFollowUp ''2024-01-01'' (Some ''Done'')) 4),
      (5, FollowUp_withId (exampleFollowUp ''2024-01-01'' None) 5),
      (6, FollowUp_withId (exampleFollowUp ''soon'' (Some ''Pending'')) 6)]"
  by (simp add: exampleFollowUpOps_def newMemStorage_eq createFollowUp_def Map_set_def Let_def)

lemma exampleTick_overdue:
  "overdueFollowUps
     (dashboard exampleRound exampleDateValue tickingClock (run exampleTickOps newMemStorage)) = 1"
  unfolding overdueFollowUps_eq exampleTick_store
  by (simp add: isOverdue_def FollowUp_withId_def exampleFollowUp_def exampleDateValue_def
      tickingClock_def Let_def)

lemma exampleTick_before:
  "overdueBefore exampleDateValue (tickingClock 0) (run exampleTickOps newMemStorage) = 0
   \<and> overdueBefore exampleDateValue (tickingClock 1) (run exampleTickOps newMemStorage) = 2"
  unfolding overdueBefore_def exampleTick_store
  by (simp add: dueBefore_def FollowUp_withId_def exampleFollowUp_def exampleDateValue_def
      tickingClock_def)

text \<open>
  C4, as stated, fails: the handler reads the clock anew for each Pending follow-up.
  With two Pending follow-ups due at the same time, and a clock that shows that time
  at the first reading and one millisecond more at the second, the handler counts 1;
  the count that the claim gives is 0 at the first of these times and 2 at the second.
\<close>

theorem overdue_single_time_counterexample:
  "overdueFollowUps
     (dashboard exampleRound exampleDateValue tickingClock (run exampleTickOps newMemStorage)) = 1
   \<and> overdueBefore exampleDateValue (tickingClock 0) (run exampleTickOps newMemStorage) = 0
   \<and> overdueBefore exampleDateValue (tickingClock 1) (run exampleTickOps newMemStorage) = 2"
  using exampleTick_overdue exampleTick_before by simp

text \<open>
  C4, amended. In every store, \<open>overdueFollowUps\<close> is the number of follow-ups of the
  follow-up map whose status is \<open>Pending\<close> and whose due date has a time value strictly
  below the reading of the clock made for that follow-up: the reading whose number is
  the number of Pending follow-ups before it in the map. A follow-up with another
  status (or none), or whose due date is not a date, is not counted. When every
  reading shows the same time \<open>t\<close>, this is the number of stored Pending follow-ups due
  strictly before \<open>t\<close>; when every reading lies between \<open>t0\<close> and \<open>t1\<close>, it lies between
  the numbers of those due strictly before \<open>t0\<close> and before \<open>t1\<close>.
\<close>

theorem overdueFollowUps_count:
  "overdueFollowUps (dashboard rnd dateValue clock s)
     = length (filter
         (\<lambda>j. FollowUp.status (map snd (followUpStore s) ! j) = Some ''Pending''
              \<and> dueBefore dateValue (map snd (followUpStore s) ! j)
                   (clock (length (filter (\<lambda>f. FollowUp.status f = Some ''Pending'')
                                     (take j (map snd (followUpStore s)))))))
         [0..<length (followUpStore s)])
   \<and> ((\<forall>k. clock k = t) \<longrightarrow>
        overdueFollowUps (dashboard rnd dateValue clock s) = overdueBefore dateValue t s)
   \<and> ((\<forall>k. t0 \<le> clock k \<and> clock k \<le> t1) \<longrightarrow>
        overdueBefore dateValue t0 s \<le> overdueFollowUps (dashboard rnd dateValue clock s)
        \<and> overdueFollowUps (dashboard rnd dateValue clock s) \<le> overdueBefore dateValue t1 s)"
proof -
  have a: "overdueFollowUps (dashboard rnd dateValue clock s)
     = length (filter
         (\<lambda>j. FollowUp.status (map snd (followUpStore s) ! j) = Some ''Pending''
              \<and> dueBefore dateValue (map snd (followUpStore s) ! j)
                   (clock (length (filter (\<lambda>f. FollowUp.status f = Some ''Pending'')
                                     (take j (map snd (followUpStore s)))))))
         [0..<length (followUpStore s)])"
    using overdue_by_reading [of dateValue clock 0 "map snd (followUpStore s)"]
    by (simp add: overdueFollowUps_eq)
  have b: "(\<forall>k. clock k = t) \<longrightarrow>
        overdueFollowUps (dashboard rnd dateValue clock s) = overdueBefore dateValue t s"
    using overdue_steady [of clock t dateValue 0 "map snd (followUpStore s)"]
    by (simp add: overdueFollowUps_eq overdueBefore_def)
  have c: "(\<forall>k. t0 \<le> clock k \<and> clock k \<le> t1) \<longrightarrow>
        overdueBefore dateValue t0 s \<le> overdueFollowUps (dashboard rnd dateValue clock s)
        \<and> overdueFollowUps (dashboard rnd dateValue clock s) \<le> overdueBefore dateValue t1 s"
    using overdue_between [of t0 clock t1 dateValue "map snd (followUpStore s)" 0]
    by (simp add: overdueFollowUps_eq overdueBefore_def)
  from a b c show ?thesis by blast
qed

theorem overdueFollowUps_count_witness:
  "map (\<lambda>(k, f). (FollowUp.status f, FollowUp.dueDate f))
       (followUpStore (run exampleFollowUpOps newMemStorage))
     = [(Some ''Pending'', ''2024-01-01''), (Some ''Pending'', ''2024-01-02''),
        (Some ''Pending'', ''2024-01-03''), (Some ''Done'', ''2024-01-01''),
        (None, ''2024-01-01''), (Some ''Pending'', ''soon'')]
   \<and> overdueBefore exampleDateValue 1704153600000 (run exampleFollowUpOps newMemStorage) = 1
   \<and> overdueFollowUps
        (dashboard exampleRound exampleDateValue (steadyClock 1704153600000)
           (run exampleFollowUpOps newMemStorage)) = 1
   \<and> overdueBefore exampleDateValue 1704153600000 (run exampleTickOps newMemStorage) = 0
   \<and> overdueBefore exampleDateValue 1704153600001 (run exampleTickOps newMemStorage) = 2
   \<and> overdueBefore exampleDateValue 1704153600000 (run exampleTickOps newMemStorage)
       \<le> overdueFollowUps
           (dashboard exampleRound exampleDateValue tickingClock
              (run exampleTickOps newMemStorage))
   \<and> overdueFollowUps
        (dashboard exampleRound exampleDateValue tickingClock (run exampleTickOps newMemStorage))
       \<le> overdueBefore exampleDateValue 1704153600001 (run exampleTickOps newMemStorage)"
proof -
  let ?s = "run exampleFollowUpOps newMemStorage"
  let ?u = "run exampleTickOps newMemStorage"
  have m: "map (\<lambda>(k, f). (FollowUp.status f, FollowUp.dueDate f)) (followUpStore ?s)
     = [(Some ''Pending'', ''2024-01-01''), (Some ''Pending'', ''2024-01-02''),
        (Some ''Pending'', ''2024-01-03''), (Some ''Done'', ''2024-01-01''),
        (None, ''2024-01-01''), (Some ''Pending'', ''soon'')]"
    unfolding exampleFollowUps_store
    by (simp add: FollowUp_withId_def exampleFollowUp_def)
  have b: "overdueBefore exampleDateValue 1704153600000 ?s = 1"
    unfolding overdueBefore_def exampleFollowUps_store
    by (simp add: dueBefore_def FollowUp_withId_def exampleFollowUp_def exampleDateValue_def)
  have st: "\<forall>k. steadyClock 1704153600000 k = 1704153600000"
    by (simp add: steadyClock_def)
  have tk: "\<forall>k. 1704153600000 \<le> tickingClock k \<and> tickingClock k \<le> 1704153600001"
    by (simp add: tickingClock_def)
  have e: "overdueBefore exampleDateValue 1704153600000 ?u = 0"
    "overdueBefore exampleDateValue 1704153600001 ?u = 2"
    using exampleTick_before by (simp_all add: tickingClock_def)
  from st overdueFollowUps_count [of exampleRound exampleDateValue "steadyClock 1704153600000" ?s
      1704153600000]
  have c1: "overdueFollowUps (dashboard exampleRound exampleDateValue (steadyClock 1704153600000) ?s)
              = overdueBefore exampleDateValue 1704153600000 ?s"
    by blast
  from tk overdueFollowUps_count [of exampleRound exampleDateValue tickingClock ?u _
      1704153600000 1704153600001]
  have c2: "overdueBefore exampleDateValue 1704153600000 ?u
              \<le> overdueFollowUps (dashboard exampleRound exampleDateValue tickingClock ?u)
            \<and> overdueFollowUps (dashboard exampleRound exampleDateValue tickingClock ?u)
              \<le> overdueBefore exampleDateValue 1704153600001 ?u"
    by blast
  from m b e c1 c2 show ?thesis by simp
qed

subsection \<open>More facts about the map operations\<close>

lemma set_Map_keys_set: "set (Map_keys (Map_set k v m)) = insert k (set (Map_keys m))"
  using dom_update [of k v m] by (simp add: Map_keys_def Map_set_def)

lemma distinct_Map_keys_set: "distinct (Map_keys m) \<Longrightarrow> distinct (Map_keys (Map_set k v m))"
  by (simp add: Map_keys_def Map_set_def distinct_update)

lemma set_Map_keys_delete: "set (Map_keys (snd (Map_delete k m))) = set (Map_keys m) - {k}"
  by (simp add: Map_keys_def Map_delete_def delete_keys)

lemma distinct_Map_keys_delete:
  "distinct (Map_keys m) \<Longrightarrow> distinct (Map_keys (snd (Map_delete k m)))"
  by (simp add: Map_keys_def Map_delete_def distinct_delete)

lemma Map_get_Some_key: "Map_get m k = Some v \<Longrightarrow> k \<in> set (Map_keys m)"
  by (auto simp add: Map_get_def Map_keys_def dest: map_of_SomeD intro: rev_image_eqI)

lemma Map_get_Some_value: "Map_get m k = Some v \<Longrightarrow> v \<in> set (Map_values m)"
  by (auto simp add: Map_get_def Map_values_def dest: map_of_SomeD intro: rev_image_eqI)

lemma keyedBy_iff: "keyedBy key m \<longleftrightarrow> (\<forall>(k, v) \<in> set m. key v = k)"
  by (simp add: keyedBy_def list_all_iff)

lemma keyedBy_set: "keyedBy key m \<Longrightarrow> key v = k \<Longrightarrow> keyedBy key (Map_set k v m)"
  unfolding keyedBy_def Map_set_def
  by (induction m) auto

lemma keyedBy_delete: "keyedBy key m \<Longrightarrow> keyedBy key (snd (Map_delete k m))"
  unfolding keyedBy_def Map_delete_def
  by (induction m) auto

lemma keyedBy_get: "keyedBy key m \<Longrightarrow> Map_get m k = Some v \<Longrightarrow> key v = k"
  by (auto simp add: keyedBy_iff Map_get_def dest: map_of_SomeD)

lemma keyedBy_ids: "keyedBy key m \<Longrightarrow> map key (Map_values m) = Map_keys m"
  unfolding keyedBy_def Map_values_def Map_keys_def
  by (induction m) auto

lemma Map_keys_set_present:
  "Map_get m k = Some v \<Longrightarrow> set (Map_keys (Map_set k v' m)) = set (Map_keys m)"
  using Map_get_Some_key [of m k v] by (auto simp add: set_Map_keys_set)

subsection \<open>One operation\<close>

lemmas storage_defs =
  createUser_def createClient_def updateClient_def deleteClient_def
  createService_def updateService_def deleteService_def
  createProject_def updateProject_def deleteProject_def
  createProjectDocument_def deleteProjectDocument_def
  addServiceToClient_def removeServiceFromClient_def
  createNewClientContact_def updateNewClientContact_def deleteNewClientContact_def
  convertContactToClient_def
  createFollowUp_def updateFollowUp_def deleteFollowUp_def
  createEmployee_def updateEmployee_def deleteEmployee_def
  assignClientToEmployee_def unassignClientFromEmployee_def

lemmas withId_defs =
  User_withId_def Client_withId_def Service_withId_def Project_withId_def
  ProjectDocument_withId_def NewClientContact_withId_def FollowUp_withId_def
  Employee_withId_def

lemmas merge_defs =
  Client_merge_def Service_merge_def Project_merge_def NewClientContact_merge_def
  FollowUp_merge_def Employee_merge_def

lemma nextId_exec:
  "nextId e (exec op s) = (case assigned e op s of None \<Rightarrow> nextId e s | Some i \<Rightarrow> i + 1)"
  by (cases op; cases e;
      simp add: assigned_def storage_defs withId_defs Let_def split_def split: option.splits)

lemma assigned_is_nextId: "assigned e op s = Some i \<Longrightarrow> i = nextId e s"
  by (cases op; cases e;
      simp add: assigned_def storage_defs withId_defs Let_def split_def split: option.splits)

lemma keyedBy_update:
  "keyedBy key m \<Longrightarrow> Map_get m k = Some v \<Longrightarrow> key v' = key v \<Longrightarrow> keyedBy key (Map_set k v' m)"
  using keyedBy_set [of key m v' k] keyedBy_get [of key m k v] by simp

lemma spread_None [simp]: "spread a None = a"
  by (simp add: spread_def)

lemma spread_Some [simp]: "spread a (Some v) = v"
  by (simp add: spread_def)

lemma storeKeys_exec:
  "set (storeKeys e (exec op s)) \<subseteq> set (storeKeys e s) \<union> set_option (assigned e op s)"
  by (cases op; cases e;
      simp add: assigned_def storage_defs withId_defs Let_def split_def
        set_Map_keys_set set_Map_keys_delete Map_keys_set_present Diff_subset
        split: option.splits;
      (blast dest: Map_get_Some_key)?)

lemma keyed_exec: "omitsId op \<Longrightarrow> keyed e s \<Longrightarrow> keyed e (exec op s)"
  by (cases op; cases e;
      simp add: storage_defs withId_defs Let_def split_def
        keyedBy_set keyedBy_delete
        split: option.splits;
      (intro allI impI)?; (erule (1) keyedBy_update)?; (simp add: merge_defs)?)

lemma distinct_storeKeys_exec:
  "distinct (storeKeys e s) \<Longrightarrow> distinct (storeKeys e (exec op s))"
  by (cases op; cases e;
      simp add: storage_defs Let_def split_def distinct_Map_keys_set distinct_Map_keys_delete
        split: option.splits)

lemma keyedBy_update_own:
  "keyedBy key m \<Longrightarrow> Map_get m k = Some v \<Longrightarrow> key v' = key v \<or> key v' = k
     \<Longrightarrow> keyedBy key (Map_set k v' m)"
  using keyedBy_set [of key m v' k] keyedBy_get [of key m k v] by auto

lemma keyed_exec_keepsId: "keepsId op \<Longrightarrow> keyed e s \<Longrightarrow> keyed e (exec op s)"
  by (cases op; cases e;
      simp add: storage_defs withId_defs Let_def split_def
        keyedBy_set keyedBy_delete
        split: option.splits;
      (intro allI impI)?; (erule (1) keyedBy_update_own)?; (auto simp add: merge_defs)?)

lemma keyed_exec_User: "keyed EUser s \<Longrightarrow> keyed EUser (exec op s)"
  by (cases op;
      simp add: storage_defs withId_defs Let_def split_def keyedBy_set split: option.splits)

lemma keyed_exec_ProjectDocument:
  "keyed EProjectDocument s \<Longrightarrow> keyed EProjectDocument (exec op s)"
  by (cases op;
      simp add: storage_defs withId_defs Let_def split_def keyedBy_set keyedBy_delete
        split: option.splits)

lemma clientServiceStore_exec:
  "keyedBy clientServiceKeyOf (clientServiceStore s) \<and> distinct (Map_keys (clientServiceStore s))
   \<Longrightarrow> keyedBy clientServiceKeyOf (clientServiceStore (exec op s))
       \<and> distinct (Map_keys (clientServiceStore (exec op s)))"
  by (cases op;
      simp add: storage_defs Let_def split_def keyedBy_set keyedBy_delete clientServiceKeyOf_def
        distinct_Map_keys_set distinct_Map_keys_delete split: option.splits)


subsection \<open>The new store\<close>

lemma newMemStorage_keys:
  "storeKeys e newMemStorage = (if e = EUser \<or> e = EEmployee then [1] else [])"
  by (cases e; simp add: newMemStorage_eq Map_keys_def)

lemma newMemStorage_nextId:
  "nextId e newMemStorage = (if e = EUser \<or> e = EEmployee then 2 else 1)"
  by (cases e; simp add: newMemStorage_eq)

lemma newMemStorage_keyed: "keyed e newMemStorage"
  by (cases e; simp add: newMemStorage_eq keyedBy_def)

subsection \<open>Reachable stores\<close>

lemma reachable_ProjectDocument:
  "reachable s \<Longrightarrow> keyed EProjectDocument s \<and> distinct (storeKeys EProjectDocument s)"
proof (induction rule: reachable.induct)
  case fresh
  show ?case by (simp add: newMemStorage_eq keyedBy_def Map_keys_def)
next
  case (step s op)
  then show ?case
    using keyed_exec_ProjectDocument [of s op] distinct_storeKeys_exec [of EProjectDocument s op]
    by blast
qed

lemma reachable_clientServiceStore:
  "reachable s \<Longrightarrow>
     keyedBy clientServiceKeyOf (clientServiceStore s) \<and> distinct (Map_keys (clientServiceStore s))"
proof (induction rule: reachable.induct)
  case fresh
  show ?case by (simp add: newMemStorage_eq keyedBy_def Map_keys_def)
next
  case (step s op)
  from step.IH show ?case by (rule clientServiceStore_exec)
qed

lemma reachable_run: "reachable s \<Longrightarrow> reachable (run ops s)"
  by (induction ops arbitrary: s) (simp_all add: reachable.step)

subsection \<open>Deleting a document through the route\<close>

lemma keyedBy_values_inj:
  assumes "keyedBy key m" and "distinct (Map_keys m)"
    and "v \<in> set (Map_values m)" and "v' \<in> set (Map_values m)" and "key v = key v'"
  shows "v = v'"
proof -
  from assms(3) obtain k where k: "(k, v) \<in> set m"
    by (auto simp add: Map_values_def)
  from assms(4) obtain k' where k': "(k', v') \<in> set m"
    by (auto simp add: Map_values_def)
  from assms(1) k k' have "key v = k" "key v' = k'"
    by (auto simp add: keyedBy_iff)
  with assms(5) k' have "(k, v') \<in> set m" by simp
  with k assms(2) show ?thesis
    by (auto simp add: Map_keys_def dest: eq_key_imp_eq_value)
qed

lemma keyedBy_value_get:
  assumes "keyedBy key m" and "distinct (Map_keys m)" and "v \<in> set (Map_values m)"
  shows "Map_get m (key v) = Some v"
proof -
  from assms(3) obtain k where k: "(k, v) \<in> set m"
    by (auto simp add: Map_values_def)
  with assms(1) have "key v = k" by (auto simp add: keyedBy_iff)
  with k assms(2) show ?thesis
    by (simp add: Map_get_def Map_keys_def)
qed

lemma deleteDocumentRoute_found:
  assumes "fst (deleteDocumentRoute True i s) \<noteq> Message 404 ''Document not found''"
  shows "\<exists>d \<in> set (Map_values (projectDocumentStore s)).
           ProjectDocument.id d = i \<and> ProjectDocument.projectId d = 0
           \<and> deleteDocumentRoute True i s = (End 204, snd (deleteProjectDocument i s))"
proof (cases "find (\<lambda>doc. ProjectDocument.id doc = i) (getProjectDocuments 0 s)")
  case None
  with assms show ?thesis by (simp add: deleteDocumentRoute_def)
next
  case (Some d)
  then have "d \<in> set (getProjectDocuments 0 s)" and "ProjectDocument.id d = i"
    by (auto simp add: find_Some_iff)
  then have "d \<in> set (Map_values (projectDocumentStore s))"
    and "ProjectDocument.projectId d = 0" and "ProjectDocument.id d = i"
    by (simp_all add: getProjectDocuments_def)
  moreover from Some
  have "deleteDocumentRoute True i s = (End 204, snd (deleteProjectDocument i s))"
    by (simp add: deleteDocumentRoute_def)
  ultimately show ?thesis by blast
qed

lemma deleteDocumentRoute_not_found:
  assumes "reachable s" and "d \<in> set (Map_values (projectDocumentStore s))"
    and "ProjectDocument.projectId d \<noteq> 0"
  shows "deleteDocumentRoute True (ProjectDocument.id d) s
           = (Message 404 ''Document not found'', s)"
proof (rule ccontr)
  assume "deleteDocumentRoute True (ProjectDocument.id d) s
            \<noteq> (Message 404 ''Document not found'', s)"
  then have "fst (deleteDocumentRoute True (ProjectDocument.id d) s)
               \<noteq> Message 404 ''Document not found''"
    by (auto simp add: deleteDocumentRoute_def Let_def split: option.splits)
  then obtain d' where d': "d' \<in> set (Map_values (projectDocumentStore s))"
    "ProjectDocument.id d' = ProjectDocument.id d" "ProjectDocument.projectId d' = 0"
    using deleteDocumentRoute_found by blast
  from assms(1) have "keyedBy ProjectDocument.id (projectDocumentStore s)"
    and "distinct (Map_keys (projectDocumentStore s))"
    using reachable_ProjectDocument [of s] by simp_all
  with d' assms(2) have "d' = d"
    using keyedBy_values_inj [of ProjectDocument.id "projectDocumentStore s" d' d] by simp
  with d'(3) assms(3) show False by simp
qed

text \<open>
  C9. In a reachable store, for every stored document whose \<open>projectId\<close> is not 0, an
  authenticated \<open>DELETE /api/documents/:id\<close> with that document's id answers 404 with
  the message "Document not found" and leaves the store as it was: the route looks the
  id up among the documents of project 0 only. Whenever the route answers anything
  else, a stored document with that id and \<open>projectId = 0\<close> exists, the answer is 204
  and the store is the one \<open>deleteProjectDocument\<close> leaves.
\<close>

theorem deleteDocumentRoute_only_project_0:
  assumes "reachable s"
  shows "(\<forall>d \<in> set (Map_values (projectDocumentStore s)).
            ProjectDocument.projectId d \<noteq> 0 \<longrightarrow>
              deleteDocumentRoute True (ProjectDocument.id d) s
                = (Message 404 ''Document not found'', s))
         \<and> (\<forall>i. fst (deleteDocumentRoute True i s) \<noteq> Message 404 ''Document not found'' \<longrightarrow>
              (\<exists>d \<in> set (Map_values (projectDocumentStore s)).
                 ProjectDocument.id d = i \<and> ProjectDocument.projectId d = 0
                 \<and> deleteDocumentRoute True i s = (End 204, snd (deleteProjectDocument i s))))"
  using assms deleteDocumentRoute_not_found deleteDocumentRoute_found by blast

lemma exampleDocumentOps_store:
  "projectDocumentStore (run exampleDocumentOps newMemStorage) =
     [(1, ProjectDocument_withId (exampleDocument 3) 1),
      (2, ProjectDocument_withId (exampleDocument 0) 2)]"
  by (simp add: exampleDocumentOps_def newMemStorage_eq createProjectDocument_def
      Map_set_def Let_def)

theorem deleteDocumentRoute_only_project_0_witness:
  "reachable (run exampleDocumentOps newMemStorage)
   \<and> map (\<lambda>d. (ProjectDocument.id d, ProjectDocument.projectId d))
        (Map_values (projectDocumentStore (run exampleDocumentOps newMemStorage)))
       = [(1, 3), (2, 0)]
   \<and> deleteDocumentRoute True 1 (run exampleDocumentOps newMemStorage)
       = (Message 404 ''Document not found'', run exampleDocumentOps newMemStorage)
   \<and> fst (deleteDocumentRoute True 2 (run exampleDocumentOps newMemStorage)) = End 204
   \<and> projectDocumentStore (snd (deleteDocumentRoute True 2 (run exampleDocumentOps newMemStorage)))
       = [(1, ProjectDocument_withId (exampleDocument 3) 1)]"
proof -
  let ?s = "run exampleDocumentOps newMemStorage"
  have r: "reachable ?s"
    by (rule reachable_run) (rule reachable.fresh)
  have m: "map (\<lambda>d. (ProjectDocument.id d, ProjectDocument.projectId d))
        (Map_values (projectDocumentStore ?s)) = [(1, 3), (2, 0)]"
    unfolding exampleDocumentOps_store
    by (simp add: Map_values_def ProjectDocument_withId_def exampleDocument_def)
  have v: "Map_values (projectDocumentStore ?s) =
     [ProjectDocument_withId (exampleDocument 3) 1, ProjectDocument_withId (exampleDocument 0) 2]"
    unfolding exampleDocumentOps_store by (simp add: Map_values_def)
  have f: "fst (deleteDocumentRoute True 2 ?s) = End 204"
    by (simp add: deleteDocumentRoute_def getProjectDocuments_def v
        ProjectDocument_withId_def exampleDocument_def)
  have d: "projectDocumentStore (snd (deleteProjectDocument 2 ?s))
       = [(1, ProjectDocument_withId (exampleDocument 3) 1)]"
    by (simp add: deleteProjectDocument_def Map_delete_def split_def exampleDocumentOps_store)
  have "deleteDocumentRoute True 1 ?s = (Message 404 ''Document not found'', ?s)"
    using deleteDocumentRoute_only_project_0 [OF r] v
    by (simp add: ProjectDocument_withId_def exampleDocument_def)
  moreover have "deleteDocumentRoute True 2 ?s = (End 204, snd (deleteProjectDocument 2 ?s))"
  proof -
    from deleteDocumentRoute_only_project_0 [OF r]
    have "fst (deleteDocumentRoute True 2 ?s) \<noteq> Message 404 ''Document not found'' \<longrightarrow>
            (\<exists>d \<in> set (Map_values (projectDocumentStore ?s)).
               ProjectDocument.id d = 2 \<and> ProjectDocument.projectId d = 0
               \<and> deleteDocumentRoute True 2 ?s = (End 204, snd (deleteProjectDocument 2 ?s)))"
      by blast
    with f show ?thesis by auto
  qed
  ultimately show ?thesis
    using r m f d by simp
qed

subsection \<open>Adding a service to a client twice\<close>

lemma Map_set_twice: "Map_set k v (Map_set k v m) = Map_set k v m"
  by (simp add: Map_set_def)

lemma keyedBy_filter_absent:
  "keyedBy key m \<Longrightarrow> k \<notin> set (Map_keys m) \<Longrightarrow> filter (\<lambda>x. key x = k) (Map_values m) = []"
  unfolding keyedBy_def Map_keys_def Map_values_def
  by (induction m) auto

lemma keyedBy_filter_present:
  "keyedBy key m \<Longrightarrow> distinct (Map_keys m) \<Longrightarrow> Map_get m k = Some v
     \<Longrightarrow> filter (\<lambda>x. key x = k) (Map_values m) = [v]"
proof (induction m)
  case Nil
  then show ?case by (simp add: Map_get_def)
next
  case (Cons p m)
  obtain k' v' where p: "p = (k', v')" by (cases p)
  from Cons.prems(1) p have kv: "key v' = k'" and km: "keyedBy key m"
    by (simp_all add: keyedBy_def)
  from Cons.prems(2) p have nk: "k' \<notin> set (Map_keys m)" and dm: "distinct (Map_keys m)"
    by (simp_all add: Map_keys_def)
  show ?case
  proof (cases "k' = k")
    case True
    with Cons.prems(3) p have "v' = v" by (simp add: Map_get_def)
    moreover from km nk True have "filter (\<lambda>x. key x = k) (Map_values m) = []"
      by (simp add: keyedBy_filter_absent)
    ultimately show ?thesis
      using p kv True by (simp add: Map_values_def)
  next
    case False
    with Cons.prems(3) p have "Map_get m k = Some v" by (simp add: Map_get_def)
    with km dm have "filter (\<lambda>x. key x = k) (Map_values m) = [v]"
      by (rule Cons.IH)
    with p kv False show ?thesis by (simp add: Map_values_def)
  qed
qed

lemma filter_narrow: "(\<And>x. P x \<Longrightarrow> Q x) \<Longrightarrow> filter P (filter Q xs) = filter P xs"
  by (induction xs) auto

lemma addServiceToClient_twice:
  "snd (addServiceToClient cs (snd (addServiceToClient cs s))) = snd (addServiceToClient cs s)"
  by (simp add: addServiceToClient_def Let_def Map_set_twice)

lemma addServiceToClient_one:
  assumes "reachable s"
  shows "filter (\<lambda>x. ClientService.clientId x = ClientService.clientId cs
                      \<and> ClientService.serviceId x = ClientService.serviceId cs)
           (Map_values (clientServiceStore (snd (addServiceToClient cs s)))) = [cs]"
proof -
  let ?s' = "snd (addServiceToClient cs s)"
  let ?P = "\<lambda>x. ClientService.clientId x = ClientService.clientId cs
                 \<and> ClientService.serviceId x = ClientService.serviceId cs"
  let ?Q = "\<lambda>x. clientServiceKeyOf x = clientServiceKeyOf cs"
  have "reachable (exec (AddServiceToClient cs) s)"
    using assms by (rule reachable.step)
  then have "reachable ?s'" by simp
  then have inv: "keyedBy clientServiceKeyOf (clientServiceStore ?s')"
    "distinct (Map_keys (clientServiceStore ?s'))"
    using reachable_clientServiceStore [of ?s'] by simp_all
  have "Map_get (clientServiceStore ?s') (clientServiceKeyOf cs) = Some cs"
    by (simp add: addServiceToClient_def Let_def clientServiceKeyOf_def Map_get_set_same)
  with inv have q: "filter ?Q (Map_values (clientServiceStore ?s')) = [cs]"
    by (rule keyedBy_filter_present)
  have "filter ?P (filter ?Q (Map_values (clientServiceStore ?s')))
          = filter ?P (Map_values (clientServiceStore ?s'))"
    by (rule filter_narrow) (simp add: clientServiceKeyOf_def)
  with q show ?thesis by simp
qed

text \<open>
  C6. In every store, adding the same association of a client and a service a second
  time returns the association and leaves the store the first addition left. In a
  reachable store, after the two additions the association map holds exactly one
  association with that client id and that service id.
\<close>

theorem addServiceToClient_idempotent:
  "snd (addServiceToClient cs (snd (addServiceToClient cs s))) = snd (addServiceToClient cs s)
   \<and> fst (addServiceToClient cs (snd (addServiceToClient cs s))) = cs
   \<and> (reachable s \<longrightarrow>
        filter (\<lambda>x. ClientService.clientId x = ClientService.clientId cs
                     \<and> ClientService.serviceId x = ClientService.serviceId cs)
          (Map_values (clientServiceStore
             (snd (addServiceToClient cs (snd (addServiceToClient cs s)))))) = [cs])"
  using addServiceToClient_twice [of cs s] addServiceToClient_one [of s cs]
  by (simp add: addServiceToClient_def Let_def)

theorem addServiceToClient_idempotent_witness:
  "reachable newMemStorage
   \<and> clientServiceStore (snd (addServiceToClient exampleClientService newMemStorage))
       = [(''1-2'', exampleClientService)]
   \<and> clientServiceStore
        (snd (addServiceToClient exampleClientService
               (snd (addServiceToClient exampleClientService newMemStorage))))
       = [(''1-2'', exampleClientService)]
   \<and> filter (\<lambda>x. ClientService.clientId x = 1 \<and> ClientService.serviceId x = 2)
        (Map_values (clientServiceStore
           (snd (addServiceToClient exampleClientService
                  (snd (addServiceToClient exampleClientService newMemStorage))))))
       = [exampleClientService]"
proof -
  have k: "clientServiceKey 1 2 = ''1-2''"
    by (simp add: clientServiceKey_def toString_def)
  have a: "clientServiceStore (snd (addServiceToClient exampleClientService newMemStorage))
       = [(''1-2'', exampleClientService)]"
    by (simp add: addServiceToClient_def Let_def exampleClientService_def k newMemStorage_eq
        Map_set_def)
  show ?thesis
    using reachable.fresh a
      addServiceToClient_idempotent [of exampleClientService newMemStorage]
    by (simp add: exampleClientService_def Map_values_def)
qed

subsection \<open>Ids along a run\<close>

lemma sorted_wrt_less_distinct: "sorted_wrt (<) (xs :: int list) \<Longrightarrow> distinct xs"
  by (induction xs) auto

lemma assignedIds_increasing:
  "sorted_wrt (<) (assignedIds e ops s) \<and> (\<forall>i \<in> set (assignedIds e ops s). nextId e s \<le> i)"
proof (induction ops arbitrary: s)
  case Nil
  show ?case by simp
next
  case (Cons op ops)
  let ?s' = "exec op s"
  from Cons.IH [of ?s']
  have srt: "sorted_wrt (<) (assignedIds e ops ?s')"
    and low: "\<forall>i \<in> set (assignedIds e ops ?s'). nextId e ?s' \<le> i"
    by simp_all
  show ?case
  proof (cases "assigned e op s")
    case None
    then have "nextId e ?s' = nextId e s" by (simp add: nextId_exec)
    with None srt low show ?thesis by simp
  next
    case (Some i)
    then have i: "i = nextId e s" by (rule assigned_is_nextId)
    from Some have "nextId e ?s' = i + 1" by (simp add: nextId_exec)
    with low have "\<forall>j \<in> set (assignedIds e ops ?s'). i < j" by fastforce
    with Some srt i show ?thesis by (auto simp add: less_imp_le)
  qed
qed

lemma storeKeys_run:
  "set (storeKeys e (run ops s)) \<subseteq> set (storeKeys e s) \<union> set (assignedIds e ops s)"
proof (induction ops arbitrary: s)
  case Nil
  show ?case by simp
next
  case (Cons op ops)
  from Cons.IH [of "exec op s"] storeKeys_exec [of e op s]
  show ?case by (auto split: option.splits)
qed

lemma distinct_storeKeys_run:
  "distinct (storeKeys e s) \<Longrightarrow> distinct (storeKeys e (run ops s))"
  by (induction ops arbitrary: s) (simp_all add: distinct_storeKeys_exec)

lemma keyed_run: "\<forall>op \<in> set ops. omitsId op \<Longrightarrow> keyed e s \<Longrightarrow> keyed e (run ops s)"
  by (induction ops arbitrary: s) (simp_all add: keyed_exec)

lemma keyed_run_keepsId:
  "\<forall>op \<in> set ops. keepsId op \<Longrightarrow> keyed e s \<Longrightarrow> keyed e (run ops s)"
  by (induction ops arbitrary: s) (simp_all add: keyed_exec_keepsId)

lemma keyed_storeIds: "keyed e s \<Longrightarrow> storeIds e s = storeKeys e s"
  by (cases e; simp add: keyedBy_ids)

lemma newMemStorage_keys_below:
  "k \<in> set (storeKeys e newMemStorage) \<Longrightarrow> k < nextId e newMemStorage"
  by (simp add: newMemStorage_keys newMemStorage_nextId split: if_splits)

lemma exampleIdClash_clients:
  "getClients (run exampleIdClashOps newMemStorage) =
     [\<lparr>Client.id = 1, name = ''Acme Co'', phone = ''555-0100'', address = None,
       clientType = ''Company''\<rparr>,
      \<lparr>Client.id = 1, name = ''Acme Co'', phone = ''555-0100'', address = None,
       clientType = ''Company''\<rparr>]"
  by (simp add: exampleIdClashOps_def exampleClient_def idOnlyClient_def newMemStorage_eq
      createClient_def updateClient_def getClients_def Client_withId_def Client_merge_def
      spreadOpt_def Map_set_def Map_get_def Map_values_def Let_def)

text \<open>
  C7, as stated, fails: a run of the store's own operations leads to a store whose two
  clients have the same \<open>id\<close>. The second client is updated with a payload that
  carries \<open>id = 1\<close>; it stays under key 2 and now reads \<open>id = 1\<close>, as the first does.
\<close>

theorem records_share_id_counterexample:
  "map Client.id (getClients (run exampleIdClashOps newMemStorage)) = [1, 1]
   \<and> \<not> distinct (map Client.id (getClients (run exampleIdClashOps newMemStorage)))"
  by (simp add: exampleIdClash_clients)

text \<open>
  C7, amended. Along every run from a new store and for every entity: the ids that the
  creates return are strictly increasing, hence distinct whatever was deleted in
  between, and greater than every key of the new store; the keys of the entity's map
  are distinct, and each is a key of the new store or an id a create of the run
  returned. When every update of the run carries in its payload no \<open>id\<close>, or the id
  it is called with, the \<open>id\<close> properties of the stored records are the keys, hence
  distinct.
\<close>

theorem ids_unique_increasing:
  "sorted_wrt (<) (assignedIds e ops newMemStorage)
   \<and> distinct (assignedIds e ops newMemStorage)
   \<and> (\<forall>i \<in> set (assignedIds e ops newMemStorage).
         \<forall>k \<in> set (storeKeys e newMemStorage). k < i)
   \<and> distinct (storeKeys e (run ops newMemStorage))
   \<and> set (storeKeys e (run ops newMemStorage))
       \<subseteq> set (storeKeys e newMemStorage) \<union> set (assignedIds e ops newMemStorage)
   \<and> ((\<forall>op \<in> set ops. keepsId op) \<longrightarrow>
        storeIds e (run ops newMemStorage) = storeKeys e (run ops newMemStorage)
        \<and> distinct (storeIds e (run ops newMemStorage)))"
proof -
  have srt: "sorted_wrt (<) (assignedIds e ops newMemStorage)"
    and low: "\<forall>i \<in> set (assignedIds e ops newMemStorage). nextId e newMemStorage \<le> i"
    using assignedIds_increasing [of e ops newMemStorage] by simp_all
  from srt have dst: "distinct (assignedIds e ops newMemStorage)"
    by (rule sorted_wrt_less_distinct)
  have above: "\<forall>i \<in> set (assignedIds e ops newMemStorage).
                 \<forall>k \<in> set (storeKeys e newMemStorage). k < i"
    using low newMemStorage_keys_below [of _ e] by fastforce
  have dk: "distinct (storeKeys e (run ops newMemStorage))"
    by (rule distinct_storeKeys_run) (simp add: newMemStorage_keys)
  have sub: "set (storeKeys e (run ops newMemStorage))
       \<subseteq> set (storeKeys e newMemStorage) \<union> set (assignedIds e ops newMemStorage)"
    by (rule storeKeys_run)
  have ids: "(\<forall>op \<in> set ops. keepsId op) \<longrightarrow>
        storeIds e (run ops newMemStorage) = storeKeys e (run ops newMemStorage)
        \<and> distinct (storeIds e (run ops newMemStorage))"
  proof
    assume "\<forall>op \<in> set ops. keepsId op"
    then have "keyed e (run ops newMemStorage)"
      using newMemStorage_keyed by (rule keyed_run_keepsId)
    then have "storeIds e (run ops newMemStorage) = storeKeys e (run ops newMemStorage)"
      by (rule keyed_storeIds)
    with dk show "storeIds e (run ops newMemStorage) = storeKeys e (run ops newMemStorage)
        \<and> distinct (storeIds e (run ops newMemStorage))"
      by simp
  qed
  from srt dst above dk sub ids show ?thesis by blast
qed

lemma exampleDeleteOps_ids:
  "assignedIds EClient exampleDeleteOps newMemStorage = [1, 2]
   \<and> storeKeys EClient (run exampleDeleteOps newMemStorage) = [2]
   \<and> storeIds EClient (run exampleDeleteOps newMemStorage) = [2]
   \<and> assignedIds EEmployee exampleDeleteOps newMemStorage = [2]
   \<and> storeKeys EEmployee newMemStorage = [1]
   \<and> storeKeys EEmployee (run exampleDeleteOps newMemStorage) = [1, 2]
   \<and> storeIds EEmployee (run exampleDeleteOps newMemStorage) = [1, 2]"
  by (simp add: exampleDeleteOps_def exampleClient_def seedEmployee_def idOnlyClient_def
      assigned_def newMemStorage_eq createClient_def deleteClient_def createEmployee_def
      updateClient_def Client_withId_def Client_merge_def Employee_withId_def spreadOpt_def
      Map_get_def Map_set_def Map_delete_def Map_keys_def Map_values_def Let_def split_def)

theorem ids_unique_increasing_witness:
  "assignedIds EClient exampleDeleteOps newMemStorage = [1, 2]
   \<and> storeKeys EClient (run exampleDeleteOps newMemStorage) = [2]
   \<and> storeIds EClient (run exampleDeleteOps newMemStorage) = [2]
   \<and> assignedIds EEmployee exampleDeleteOps newMemStorage = [2]
   \<and> storeKeys EEmployee newMemStorage = [1]
   \<and> storeKeys EEmployee (run exampleDeleteOps newMemStorage) = [1, 2]
   \<and> storeIds EEmployee (run exampleDeleteOps newMemStorage) = [1, 2]
   \<and> list_all keepsId exampleDeleteOps
   \<and> \<not> list_all omitsId exampleDeleteOps
   \<and> sorted_wrt (<) (assignedIds EClient exampleDeleteOps newMemStorage)
   \<and> distinct (storeIds EClient (run exampleDeleteOps newMemStorage))
   \<and> sorted_wrt (<) (assignedIds EEmployee exampleDeleteOps newMemStorage)
   \<and> distinct (storeIds EEmployee (run exampleDeleteOps newMemStorage))"
proof -
  have o: "\<forall>op \<in> set exampleDeleteOps. keepsId op"
    by (simp add: exampleDeleteOps_def idOnlyClient_def)
  have n: "\<not> list_all omitsId exampleDeleteOps"
    by (simp add: exampleDeleteOps_def idOnlyClient_def)
  from o have "list_all keepsId exampleDeleteOps"
    by (simp add: list_all_iff)
  with n show ?thesis
    using o exampleDeleteOps_ids
      ids_unique_increasing [of EClient exampleDeleteOps]
      ids_unique_increasing [of EEmployee exampleDeleteOps]
    by simp
qed

subsection \<open>Records stored under their own id\<close>

lemma Map_keys_set_same:
  "Map_get m k = Some v \<Longrightarrow> Map_keys (Map_set k v' m) = Map_keys m"
  using Map_get_Some_key [of m k v] by (simp add: Map_keys_def Map_set_def update_keys)

lemma update_id_Client:
  assumes "getClient i s = Some c" and "PartialInsertClient.id cd = Some j"
  shows "getClient i (snd (updateClient i cd s)) = Some (Client_merge c cd)
         \<and> Client.id (Client_merge c cd) = j
         \<and> Map_keys (clientStore (snd (updateClient i cd s))) = Map_keys (clientStore s)"
  using assms
  by (simp add: getClient_def updateClient_def Let_def Map_get_set_same Map_keys_set_same
      Client_merge_def)

lemma update_id_Service:
  assumes "getService i s = Some c" and "PartialInsertService.id vd = Some j"
  shows "getService i (snd (updateService i vd s)) = Some (Service_merge c vd)
         \<and> Service.id (Service_merge c vd) = j
         \<and> Map_keys (serviceStore (snd (updateService i vd s))) = Map_keys (serviceStore s)"
  using assms
  by (simp add: getService_def updateService_def Let_def Map_get_set_same Map_keys_set_same
      Service_merge_def)

lemma update_id_Project:
  assumes "getProject i s = Some c" and "PartialInsertProject.id pd = Some j"
  shows "getProject i (snd (updateProject i pd s)) = Some (Project_merge c pd)
         \<and> Project.id (Project_merge c pd) = j
         \<and> Map_keys (projectStore (snd (updateProject i pd s))) = Map_keys (projectStore s)"
  using assms
  by (simp add: getProject_def updateProject_def Let_def Map_get_set_same Map_keys_set_same
      Project_merge_def)

lemma update_id_NewClientContact:
  assumes "getNewClientContact i s = Some c" and "PartialInsertNewClientContact.id nd = Some j"
  shows "getNewClientContact i (snd (updateNewClientContact i nd s))
           = Some (NewClientContact_merge c nd)
         \<and> NewClientContact.id (NewClientContact_merge c nd) = j
         \<and> Map_keys (newClientContactStore (snd (updateNewClientContact i nd s)))
             = Map_keys (newClientContactStore s)"
  using assms
  by (simp add: getNewClientContact_def updateNewClientContact_def Let_def Map_get_set_same
      Map_keys_set_same NewClientContact_merge_def)

lemma update_id_FollowUp:
  assumes "getFollowUp i s = Some c" and "PartialInsertFollowUp.id fd = Some j"
  shows "getFollowUp i (snd (updateFollowUp i fd s)) = Some (FollowUp_merge c fd)
         \<and> FollowUp.id (FollowUp_merge c fd) = j
         \<and> Map_keys (followUpStore (snd (updateFollowUp i fd s))) = Map_keys (followUpStore s)"
  using assms
  by (simp add: getFollowUp_def updateFollowUp_def Let_def Map_get_set_same Map_keys_set_same
      FollowUp_merge_def)

lemma update_id_Employee:
  assumes "getEmployee i s = Some c" and "PartialInsertEmployee.id ed = Some j"
  shows "getEmployee i (snd (updateEmployee i ed s)) = Some (Employee_merge c ed)
         \<and> Employee.id (Employee_merge c ed) = j
         \<and> Map_keys (employeeStore (snd (updateEmployee i ed s))) = Map_keys (employeeStore s)"
  using assms
  by (simp add: getEmployee_def updateEmployee_def Let_def Map_get_set_same Map_keys_set_same
      Employee_merge_def)

text \<open>
  C10. Every map of a new store holds each record under the key equal to the record's
  \<open>id\<close>. Every operation of the store that is not an update with an \<open>id\<close> in its payload
  keeps this so (reads do not change the store), hence it is so after every run of such
  operations. An update of a stored record whose payload carries an \<open>id\<close> stores the
  merged record, whose \<open>id\<close> is the payload's, under the key it was looked up with, and
  the keys of the map are as before.
\<close>

theorem stored_under_own_id:
  "keyed e newMemStorage
   \<and> (keyed e s \<and> omitsId op \<longrightarrow> keyed e (exec op s))
   \<and> ((\<forall>op \<in> set ops. omitsId op) \<longrightarrow> keyed e (run ops newMemStorage))
   \<and> (\<forall>c j. getClient i s = Some c \<and> PartialInsertClient.id cd = Some j \<longrightarrow>
         getClient i (snd (updateClient i cd s)) = Some (Client_merge c cd)
         \<and> Client.id (Client_merge c cd) = j
         \<and> Map_keys (clientStore (snd (updateClient i cd s))) = Map_keys (clientStore s))
   \<and> (\<forall>c j. getService i s = Some c \<and> PartialInsertService.id vd = Some j \<longrightarrow>
         getService i (snd (updateService i vd s)) = Some (Service_merge c vd)
         \<and> Service.id (Service_merge c vd) = j
         \<and> Map_keys (serviceStore (snd (updateService i vd s))) = Map_keys (serviceStore s))
   \<and> (\<forall>c j. getProject i s = Some c \<and> PartialInsertProject.id pd = Some j \<longrightarrow>
         getProject i (snd (updateProject i pd s)) = Some (Project_merge c pd)
         \<and> Project.id (Project_merge c pd) = j
         \<and> Map_keys (projectStore (snd (updateProject i pd s))) = Map_keys (projectStore s))
   \<and> (\<forall>c j. getNewClientContact i s = Some c
             \<and> PartialInsertNewClientContact.id nd = Some j \<longrightarrow>
         getNewClientContact i (snd (updateNewClientContact i nd s))
           = Some (NewClientContact_merge c nd)
         \<and> NewClientContact.id (NewClientContact_merge c nd) = j
         \<and> Map_keys (newClientContactStore (snd (updateNewClientContact i nd s)))
             = Map_keys (newClientContactStore s))
   \<and> (\<forall>c j. getFollowUp i s = Some c \<and> PartialInsertFollowUp.id fd = Some j \<longrightarrow>
         getFollowUp i (snd (updateFollowUp i fd s)) = Some (FollowUp_merge c fd)
         \<and> FollowUp.id (FollowUp_merge c fd) = j
         \<and> Map_keys (followUpStore (snd (updateFollowUp i fd s))) = Map_keys (followUpStore s))
   \<and> (\<forall>c j. getEmployee i s = Some c \<and> PartialInsertEmployee.id ed = Some j \<longrightarrow>
         getEmployee i (snd (updateEmployee i ed s)) = Some (Employee_merge c ed)
         \<and> Employee.id (Employee_merge c ed) = j
         \<and> Map_keys (employeeStore (snd (updateEmployee i ed s))) = Map_keys (employeeStore s))"
proof -
  have a: "keyed e newMemStorage" by (rule newMemStorage_keyed)
  have b: "keyed e s \<and> omitsId op \<longrightarrow> keyed e (exec op s)"
    using keyed_exec [of op e s] by blast
  have c: "(\<forall>op \<in> set ops. omitsId op) \<longrightarrow> keyed e (run ops newMemStorage)"
    using keyed_run [of ops e newMemStorage] newMemStorage_keyed [of e] by blast
  show ?thesis
    using a b c update_id_Client [of i s _ cd] update_id_Service [of i s _ vd]
      update_id_Project [of i s _ pd] update_id_NewClientContact [of i s _ nd]
      update_id_FollowUp [of i s _ fd] update_id_Employee [of i s _ ed]
    by blast
qed

lemma exampleOps_stores:
  "clientStore (run exampleOps newMemStorage) = [(1, Client_withId exampleClient 1)]
   \<and> serviceStore (run exampleOps newMemStorage) = [(1, Service_withId exampleService 1)]
   \<and> projectStore (run exampleOps newMemStorage) = [(1, Project_withId exampleProject 1)]
   \<and> newClientContactStore (run exampleOps newMemStorage)
       = [(1, NewClientContact_withId exampleContact 1)]
   \<and> followUpStore (run exampleOps newMemStorage)
       = [(1, FollowUp_withId (exampleFollowUp ''2024-01-01'' (Some ''Pending'')) 1)]
   \<and> employeeStore (run exampleOps newMemStorage) = [(1, Employee_withId seedEmployee 1)]"
  by (simp add: exampleOps_def newMemStorage_eq createClient_def createService_def
      createProject_def createNewClientContact_def createFollowUp_def Map_set_def Let_def
      Employee_withId_def seedEmployee_def)

theorem stored_under_own_id_witness:
  "list_all omitsId exampleOps
   \<and> keyed EClient (run exampleOps newMemStorage)
   \<and> omitsId (UpdateClient 1 (phoneOnlyClient ''555-0199''))
   \<and> keyed EClient (exec (UpdateClient 1 (phoneOnlyClient ''555-0199''))
                      (run exampleOps newMemStorage))
   \<and> map_option Client.id (getClient 1 (run exampleOps newMemStorage)) = Some 1
   \<and> map_option Client.id
        (getClient 1 (snd (updateClient 1 (idOnlyClient 9) (run exampleOps newMemStorage))))
       = Some 9
   \<and> Map_keys (clientStore
        (snd (updateClient 1 (idOnlyClient 9) (run exampleOps newMemStorage)))) = [1]
   \<and> \<not> keyed EClient (snd (updateClient 1 (idOnlyClient 9) (run exampleOps newMemStorage)))
   \<and> map_option Service.id
        (getService 1 (snd (updateService 1 (idOnlyService 9) (run exampleOps newMemStorage))))
       = Some 9
   \<and> Map_keys (serviceStore
        (snd (updateService 1 (idOnlyService 9) (run exampleOps newMemStorage)))) = [1]
   \<and> map_option Project.id
        (getProject 1 (snd (updateProject 1 (idOnlyProject 9) (run exampleOps newMemStorage))))
       = Some 9
   \<and> Map_keys (projectStore
        (snd (updateProject 1 (idOnlyProject 9) (run exampleOps newMemStorage)))) = [1]
   \<and> map_option NewClientContact.id
        (getNewClientContact 1
          (snd (updateNewClientContact 1 (idOnlyNewClientContact 9)
                 (run exampleOps newMemStorage))))
       = Some 9
   \<and> Map_keys (newClientContactStore
        (snd (updateNewClientContact 1 (idOnlyNewClientContact 9)
               (run exampleOps newMemStorage)))) = [1]
   \<and> map_option FollowUp.id
        (getFollowUp 1 (snd (updateFollowUp 1 (idOnlyFollowUp 9) (run exampleOps newMemStorage))))
       = Some 9
   \<and> Map_keys (followUpStore
        (snd (updateFollowUp 1 (idOnlyFollowUp 9) (run exampleOps newMemStorage)))) = [1]
   \<and> map_option Employee.id
        (getEmployee 1 (snd (updateEmployee 1 (idOnlyEmployee 9) (run exampleOps newMemStorage))))
       = Some 9
   \<and> Map_keys (employeeStore
        (snd (updateEmployee 1 (idOnlyEmployee 9) (run exampleOps newMemStorage)))) = [1]"
proof -
  let ?s = "run exampleOps newMemStorage"
  note st = exampleOps_stores
  have o: "\<forall>op \<in> set exampleOps. omitsId op"
    by (simp add: exampleOps_def)
  have o': "omitsId (UpdateClient 1 (phoneOnlyClient ''555-0199''))"
    by (simp add: phoneOnlyClient_def)
  have g: "getClient 1 ?s = Some (Client_withId exampleClient 1)"
    "getService 1 ?s = Some (Service_withId exampleService 1)"
    "getProject 1 ?s = Some (Project_withId exampleProject 1)"
    "getNewClientContact 1 ?s = Some (NewClientContact_withId exampleContact 1)"
    "getFollowUp 1 ?s = Some (FollowUp_withId (exampleFollowUp ''2024-01-01'' (Some ''Pending'')) 1)"
    "getEmployee 1 ?s = Some (Employee_withId seedEmployee 1)"
    by (simp_all add: getClient_def getService_def getProject_def getNewClientContact_def
        getFollowUp_def getEmployee_def st Map_get_def)
  have p: "PartialInsertClient.id (idOnlyClient 9) = Some 9"
    "PartialInsertService.id (idOnlyService 9) = Some 9"
    "PartialInsertProject.id (idOnlyProject 9) = Some 9"
    "PartialInsertNewClientContact.id (idOnlyNewClientContact 9) = Some 9"
    "PartialInsertFollowUp.id (idOnlyFollowUp 9) = Some 9"
    "PartialInsertEmployee.id (idOnlyEmployee 9) = Some 9"
    by (simp_all add: idOnlyClient_def idOnlyService_def idOnlyProject_def
        idOnlyNewClientContact_def idOnlyFollowUp_def idOnlyEmployee_def)
  have k: "Map_keys (clientStore ?s) = [1]" "Map_keys (serviceStore ?s) = [1]"
    "Map_keys (projectStore ?s) = [1]" "Map_keys (newClientContactStore ?s) = [1]"
    "Map_keys (followUpStore ?s) = [1]" "Map_keys (employeeStore ?s) = [1]"
    by (simp_all add: st Map_keys_def)
  have i1: "map_option Client.id (getClient 1 ?s) = Some 1"
    by (simp add: g Client_withId_def)
  have n: "\<not> keyed EClient (snd (updateClient 1 (idOnlyClient 9) ?s))"
    by (simp add: updateClient_def st Map_get_def Map_set_def keyedBy_def Client_merge_def p
        Let_def)
  note t = stored_under_own_id [where e = EClient and s = ?s and ops = exampleOps
      and op = "UpdateClient 1 (phoneOnlyClient ''555-0199'')" and i = 1
      and cd = "idOnlyClient 9" and vd = "idOnlyService 9" and pd = "idOnlyProject 9"
      and nd = "idOnlyNewClientContact 9" and fd = "idOnlyFollowUp 9"
      and ed = "idOnlyEmployee 9"]
  from o have l: "list_all omitsId exampleOps"
    by (simp add: list_all_iff)
  show ?thesis
    using l o o' i1 n t g p k by simp
qed

subsection \<open>The example scenario\<close>

lemma scenario_stores:
  "clientStore (run scenarioOps newMemStorage) = [(1, Client_withId exampleClient 1)]
   \<and> projectStore (run scenarioOps newMemStorage) = [(1, Project_withId exampleProject 1)]"
  by (simp add: scenarioOps_def newMemStorage_eq createClient_def createProject_def
      Map_set_def Let_def)

text \<open>
  C8, as stated, fails at its first step: the constructor has already created the
  employee John Doe, so creating him on a freshly constructed store yields id 2.
\<close>

theorem scenario_employee_id_counterexample:
  "Employee.id (fst (createEmployee seedEmployee newMemStorage)) = 2"
  by (simp add: createEmployee_def Employee_withId_def newMemStorage_eq Let_def)

text \<open>
  C8, amended. The constructor itself creates, on empty maps, the employee John Doe
  (Manager) with id 1 and then the user admin, with id 1, linked to employee 1, and a
  freshly constructed store holds both. On that store, creating the client Acme Co
  (Company) yields id 1 and creating a project for client 1 priced at 500 yields id 1;
  the dashboard then reports \<open>totalRevenue = 500\<close> and \<open>activeProjects = 0\<close>, and after
  the project's status is set to \<open>In Progress\<close> it reports \<open>activeProjects = 1\<close>, with
  \<open>totalRevenue\<close> still 500.
\<close>

theorem example_scenario:
  "fst (createEmployee seedEmployee emptyStorage)
     = \<lparr>Employee.id = 1, name = ''John Doe'', email = ''john@example.com'',
        role = ''Manager'', activeStatus = Some True\<rparr>
   \<and> fst (createUser seedUser (snd (createEmployee seedEmployee emptyStorage)))
     = \<lparr>User.id = 1, username = ''admin'', password = ''password'',
        employeeId = Some (Val 1)\<rparr>
   \<and> newMemStorage = snd (createUser seedUser (snd (createEmployee seedEmployee emptyStorage)))
   \<and> getEmployee 1 newMemStorage
     = Some \<lparr>Employee.id = 1, name = ''John Doe'', email = ''john@example.com'',
             role = ''Manager'', activeStatus = Some True\<rparr>
   \<and> getUser 1 newMemStorage
     = Some \<lparr>User.id = 1, username = ''admin'', password = ''password'',
             employeeId = Some (Val 1)\<rparr>
   \<and> fst (createClient exampleClient newMemStorage)
     = \<lparr>Client.id = 1, name = ''Acme Co'', phone = ''555-0100'', address = None,
        clientType = ''Company''\<rparr>
   \<and> Project.id (fst (createProject exampleProject
                        (snd (createClient exampleClient newMemStorage)))) = 1
   \<and> Project.clientId (fst (createProject exampleProject
                        (snd (createClient exampleClient newMemStorage)))) = 1
   \<and> Project.price (fst (createProject exampleProject
                        (snd (createClient exampleClient newMemStorage)))) = Num 500
   \<and> run scenarioOps newMemStorage
     = snd (createProject exampleProject (snd (createClient exampleClient newMemStorage)))
   \<and> totalRevenue (dashboard rnd dateValue clock (run scenarioOps newMemStorage)) = Num 500
   \<and> activeProjects (dashboard rnd dateValue clock (run scenarioOps newMemStorage)) = 0
   \<and> map_option Project.status
        (fst (updateProject 1 (statusOnlyProject ''In Progress'')
               (run scenarioOps newMemStorage))) = Some (Some ''In Progress'')
   \<and> activeProjects
        (dashboard rnd dateValue clock
          (snd (updateProject 1 (statusOnlyProject ''In Progress'')
                 (run scenarioOps newMemStorage)))) = 1
   \<and> totalRevenue
        (dashboard rnd dateValue clock
          (snd (updateProject 1 (statusOnlyProject ''In Progress'')
                 (run scenarioOps newMemStorage)))) = Num 500"
proof -
  let ?s = "run scenarioOps newMemStorage"
  let ?u = "snd (updateProject 1 (statusOnlyProject ''In Progress'') ?s)"
  note st = scenario_stores
  have e: "fst (createEmployee seedEmployee emptyStorage)
     = \<lparr>Employee.id = 1, name = ''John Doe'', email = ''john@example.com'',
        role = ''Manager'', activeStatus = Some True\<rparr>"
    by (simp add: createEmployee_def Employee_withId_def seedEmployee_def emptyStorage_def
        Let_def)
  have u: "fst (createUser seedUser (snd (createEmployee seedEmployee emptyStorage)))
     = \<lparr>User.id = 1, username = ''admin'', password = ''password'',
        employeeId = Some (Val 1)\<rparr>"
    by (simp add: createUser_def createEmployee_def User_withId_def seedUser_def
        emptyStorage_def Let_def)
  have n: "newMemStorage
             = snd (createUser seedUser (snd (createEmployee seedEmployee emptyStorage)))"
    by (simp add: newMemStorage_def seedInitialData_def)
  have ge: "getEmployee 1 newMemStorage
     = Some \<lparr>Employee.id = 1, name = ''John Doe'', email = ''john@example.com'',
             role = ''Manager'', activeStatus = Some True\<rparr>"
    by (simp add: getEmployee_def newMemStorage_eq Map_get_def)
  have gu: "getUser 1 newMemStorage
     = Some \<lparr>User.id = 1, username = ''admin'', password = ''password'',
             employeeId = Some (Val 1)\<rparr>"
    by (simp add: getUser_def newMemStorage_eq Map_get_def)
  have c: "fst (createClient exampleClient newMemStorage)
     = \<lparr>Client.id = 1, name = ''Acme Co'', phone = ''555-0100'', address = None,
        clientType = ''Company''\<rparr>"
    by (simp add: createClient_def Client_withId_def exampleClient_def newMemStorage_eq Let_def)
  have p: "Project.id (fst (createProject exampleProject
                        (snd (createClient exampleClient newMemStorage)))) = 1"
    "Project.clientId (fst (createProject exampleProject
                        (snd (createClient exampleClient newMemStorage)))) = 1"
    "Project.price (fst (createProject exampleProject
                        (snd (createClient exampleClient newMemStorage)))) = Num 500"
    by (simp_all add: createProject_def createClient_def Project_withId_def exampleProject_def
        newMemStorage_eq Let_def)
  have r: "?s = snd (createProject exampleProject (snd (createClient exampleClient newMemStorage)))"
    by (simp add: scenarioOps_def)
  have d1: "totalRevenue (dashboard rnd dateValue clock ?s) = Num 500"
    by (simp add: dashboard_def getProjects_def st Map_values_def Project_withId_def
        exampleProject_def Let_def isDouble_500)
  have d2: "activeProjects (dashboard rnd dateValue clock ?s) = 0"
    by (simp add: dashboard_def getProjects_def st Map_values_def Project_withId_def
        exampleProject_def Let_def)
  have up: "projectStore ?u
      = [(1, Project_merge (Project_withId exampleProject 1) (statusOnlyProject ''In Progress''))]"
    by (simp add: updateProject_def st Map_get_def Map_set_def Let_def)
  have f: "map_option Project.status
        (fst (updateProject 1 (statusOnlyProject ''In Progress'') ?s))
       = Some (Some ''In Progress'')"
    by (simp add: updateProject_def st Map_get_def Let_def Project_merge_def
        statusOnlyProject_def spreadOpt_def)
  have gp: "getProjects ?u
      = [Project_merge (Project_withId exampleProject 1) (statusOnlyProject ''In Progress'')]"
    unfolding getProjects_def up by (simp add: Map_values_def)
  have d3: "activeProjects (dashboard rnd dateValue clock ?u) = 1"
    unfolding dashboard_def Let_def gp
    by (simp add: Project_merge_def statusOnlyProject_def spreadOpt_def)
  have d4: "totalRevenue (dashboard rnd dateValue clock ?u) = Num 500"
    unfolding dashboard_def Let_def gp
    by (simp add: Project_merge_def Project_withId_def exampleProject_def
        statusOnlyProject_def isDouble_500)
  from e u n ge gu c p r d1 d2 f d3 d4 show ?thesis by blast
qed

end
